theory Spec2Isabelle
  imports Main "HOL-Library.Word"
begin

section \<open>JavaScript strings\<close>

text \<open>
  A JavaScript string is a sequence of 16-bit code units.  \<open>js\<close> turns an ASCII
  literal into such a sequence, so that \<open>js ''Pog''\<close> stands for \<^verbatim>\<open>"Pog"\<close>.
\<close>

type_synonym jschar = "16 word"
type_synonym jsstring = "jschar list"

definition js :: "string \<Rightarrow> jsstring" where
  "js s = map of_char s"

text \<open>
  \<^verbatim>\<open>String.prototype.trim\<close> removes the ECMAScript WhiteSpace and LineTerminator code
  points from both ends: TAB, LF, VT, FF, CR, SP, NBSP, U+1680, U+2000..U+200A, U+2028,
  U+2029, U+202F, U+205F, U+3000 and U+FEFF.
\<close>

definition isWhiteSpace :: "jschar \<Rightarrow> bool" where
  "isWhiteSpace c \<longleftrightarrow>
     (0x09 \<le> c \<and> c \<le> 0x0D) \<or> c = 0x20 \<or> c = 0xA0 \<or> c = 0x1680 \<or>
     (0x2000 \<le> c \<and> c \<le> 0x200A) \<or> c = 0x2028 \<or> c = 0x2029 \<or> c = 0x202F \<or>
     c = 0x205F \<or> c = 0x3000 \<or> c = 0xFEFF"

definition trim :: "jsstring \<Rightarrow> jsstring" where
  "trim s = rev (dropWhile isWhiteSpace (rev (dropWhile isWhiteSpace s)))"

section \<open>The name sanitizer\<close>

text \<open>
  \<^verbatim>\<open>const UNSAFE_FILENAME_CHARS = /[<>:"/\\|?*\x00-\x1f]/g;\<close>
  The class holds the nine punctuation characters and the control characters up to 0x1f.
\<close>

definition UNSAFE_FILENAME_CHARS :: "jschar \<Rightarrow> bool" where
  "UNSAFE_FILENAME_CHARS c \<longleftrightarrow>
     c = 0x3C \<or> c = 0x3E \<or> c = 0x3A \<or> c = 0x22 \<or> c = 0x2F \<or> c = 0x5C \<or>
     c = 0x7C \<or> c = 0x3F \<or> c = 0x2A \<or> c \<le> 0x1F"

text \<open>\<^verbatim>\<open>.replace(UNSAFE_FILENAME_CHARS, "_")\<close>: every match (one code unit) becomes an underscore.\<close>

definition replaceUnsafe :: "jsstring \<Rightarrow> jsstring" where
  "replaceUnsafe s = map (\<lambda>c. if UNSAFE_FILENAME_CHARS c then 0x5F else c) s"

text \<open>
  \<^verbatim>\<open>.replace(/\.+$/, "")\<close>: the first match of one or more periods reaching the end of
  the input is the whole run of trailing periods, which is removed.
\<close>

definition stripTrailingDots :: "jsstring \<Rightarrow> jsstring" where
  "stripTrailingDots s = rev (dropWhile (\<lambda>c. c = 0x2E) (rev s))"

text \<open>
  \<^verbatim>\<open>
  function sanitizeName(name: string): string {
      return name
          .replace(UNSAFE_FILENAME_CHARS, "_")
          .replace(/\.+$/, "")
          .trim() || "unknown";
  }
  \<close>
  The empty string is falsy, so \<^verbatim>\<open>||\<close> replaces exactly the empty result.
\<close>

definition sanitizeName :: "jsstring \<Rightarrow> jsstring" where
  "sanitizeName name =
     (let r = trim (stripTrailingDots (replaceUnsafe name))
      in if r = [] then js ''unknown'' else r)"

section \<open>The outside world\<close>

text \<open>
  The module calls into Node's \<^verbatim>\<open>original-fs\<close> and \<^verbatim>\<open>path\<close>, into the host's
  \<^verbatim>\<open>fetchBuffer\<close>, and reads \<^verbatim>\<open>DATA_DIR\<close> and \<^verbatim>\<open>process.env.HOME\<close>.  None of
  them is part of the module, so they are parameters: an environment gives each primitive
  as a function on an arbitrary state \<open>'x\<close> of the outside world (disk and network).
  A primitive that can throw returns \<open>Inl\<close> of the thrown value; it returns the state it
  leaves behind in either case, so a primitive may fail half-way.
  \<^verbatim>\<open>existsSync\<close> and \<^verbatim>\<open>readdirSync\<close> only read the state.  \<^verbatim>\<open>readdirSync\<close> gives the
  entries of a directory with their kind, as with \<^verbatim>\<open>withFileTypes\<close>; without that option
  the call gives the names of the same entries.  \<^verbatim>\<open>mkdirSync\<close> is the call with
  \<^verbatim>\<open>{ recursive: true }\<close>, the only one the module makes.
\<close>

type_synonym bytes = "8 word list"

datatype js_error = JsError jsstring

datatype dirent = Dirent (dirent_name: jsstring) (isDirectory: bool)

record 'x env =
  DATA_DIR :: jsstring
  HOME :: "jsstring option"
  join :: "jsstring \<Rightarrow> jsstring \<Rightarrow> jsstring"
  existsSync :: "'x \<Rightarrow> jsstring \<Rightarrow> bool"
  mkdirSync :: "'x \<Rightarrow> jsstring \<Rightarrow> (js_error + unit) \<times> 'x"
  fetchBuffer :: "'x \<Rightarrow> jsstring \<Rightarrow> (js_error + bytes) \<times> 'x"
  writeFileSync :: "'x \<Rightarrow> jsstring \<Rightarrow> bytes \<Rightarrow> (js_error + unit) \<times> 'x"
  readdirSync :: "'x \<Rightarrow> jsstring \<Rightarrow> js_error + dirent list"

text \<open>Every call of a primitive is recorded, in order, so that claims about which I/O happened can be stated.\<close>

datatype call =
  ExistsSync jsstring
| MkdirSync jsstring
| FetchBuffer jsstring
| WriteFileSync jsstring bytes
| ReaddirSync jsstring
| ConsoleError jsstring js_error

text \<open>
  The state of a run: the outside world, the module-level
  \<^verbatim>\<open>const cachedEmojiIds = new Set<string>()\<close>, and the record of calls.
\<close>

record 'x world =
  ext :: 'x
  cachedEmojiIds :: "jsstring set"
  calls :: "call list"

definition do_existsSync :: "'x env \<Rightarrow> jsstring \<Rightarrow> 'x world \<Rightarrow> bool \<times> 'x world" where
  "do_existsSync e p w = (existsSync e (ext w) p, w\<lparr>calls := calls w @ [ExistsSync p]\<rparr>)"

definition do_mkdirSync :: "'x env \<Rightarrow> jsstring \<Rightarrow> 'x world \<Rightarrow> (js_error + unit) \<times> 'x world" where
  "do_mkdirSync e p w =
     (case mkdirSync e (ext w) p of
        (r, x) \<Rightarrow> (r, w\<lparr>ext := x, calls := calls w @ [MkdirSync p]\<rparr>))"

definition do_fetchBuffer :: "'x env \<Rightarrow> jsstring \<Rightarrow> 'x world \<Rightarrow> (js_error + bytes) \<times> 'x world" where
  "do_fetchBuffer e url w =
     (case fetchBuffer e (ext w) url of
        (r, x) \<Rightarrow> (r, w\<lparr>ext := x, calls := calls w @ [FetchBuffer url]\<rparr>))"

definition do_writeFileSync ::
  "'x env \<Rightarrow> jsstring \<Rightarrow> bytes \<Rightarrow> 'x world \<Rightarrow> (js_error + unit) \<times> 'x world" where
  "do_writeFileSync e p buffer w =
     (case writeFileSync e (ext w) p buffer of
        (r, x) \<Rightarrow> (r, w\<lparr>ext := x, calls := calls w @ [WriteFileSync p buffer]\<rparr>))"

definition do_readdirSync ::
  "'x env \<Rightarrow> jsstring \<Rightarrow> 'x world \<Rightarrow> (js_error + dirent list) \<times> 'x world" where
  "do_readdirSync e p w = (readdirSync e (ext w) p, w\<lparr>calls := calls w @ [ReaddirSync p]\<rparr>)"

definition do_consoleError :: "jsstring \<Rightarrow> js_error \<Rightarrow> 'x world \<Rightarrow> 'x world" where
  "do_consoleError msg err w = w\<lparr>calls := calls w @ [ConsoleError msg err]\<rparr>"

section \<open>Paths and URLs\<close>

text \<open>
  The replacement text of \<^verbatim>\<open>String.prototype.replace\<close> is a template: for a pattern
  without capture groups that matched \<open>m\<close> at the start of the input, with \<open>a\<close> the text
  after the match, \<^verbatim>\<open>$$\<close> stands for a dollar sign, \<^verbatim>\<open>$&\<close> for \<open>m\<close>,
  \<^verbatim>\<open>$`\<close> for the (empty) text before the match and \<^verbatim>\<open>$'\<close> for \<open>a\<close>; any other
  dollar sign stands for itself.
\<close>

fun getSubstitution :: "jsstring \<Rightarrow> jsstring \<Rightarrow> jsstring \<Rightarrow> jsstring" where
  "getSubstitution m a [] = []"
| "getSubstitution m a [c] = [c]"
| "getSubstitution m a (c # d # r) =
     (if c = 0x24 \<and> d = 0x24 then 0x24 # getSubstitution m a r
      else if c = 0x24 \<and> d = 0x26 then m @ getSubstitution m a r
      else if c = 0x24 \<and> d = 0x60 then getSubstitution m a r
      else if c = 0x24 \<and> d = 0x27 then a @ getSubstitution m a r
      else c # getSubstitution m a (d # r))"

text \<open>
  \<^verbatim>\<open>
  function resolveBaseDir(customDir?: string): string {
      if (customDir && customDir.trim().length > 0) {
          return customDir.replace(/^~/, process.env.HOME ?? "");
      }
      return join(DATA_DIR, "emotes");
  }
  \<close>
  An absent argument is \<open>None\<close>; the empty string is falsy as well.
\<close>

definition resolveBaseDir :: "'x env \<Rightarrow> jsstring option \<Rightarrow> jsstring" where
  "resolveBaseDir e customDir =
     (case customDir of
        None \<Rightarrow> join e (DATA_DIR e) (js ''emotes'')
      | Some d \<Rightarrow>
          if d \<noteq> [] \<and> length (trim d) > 0 then
            (case d of
               c # r \<Rightarrow>
                 if c = 0x7E
                 then getSubstitution [c] r (case HOME e of None \<Rightarrow> [] | Some h \<Rightarrow> h) @ r
                 else d
             | [] \<Rightarrow> d)
          else join e (DATA_DIR e) (js ''emotes''))"

text \<open>
  \<^verbatim>\<open>
  function ensureDir(dirPath: string): void {
      if (!existsSync(dirPath)) {
          mkdirSync(dirPath, { recursive: true });
      }
  }
  \<close>
\<close>

definition ensureDir :: "'x env \<Rightarrow> jsstring \<Rightarrow> 'x world \<Rightarrow> (js_error + unit) \<times> 'x world" where
  "ensureDir e dirPath w =
     (case do_existsSync e dirPath w of
        (ex, w1) \<Rightarrow> if \<not> ex then do_mkdirSync e dirPath w1 else (Inr (), w1))"

text \<open>
  A size is one of the whole numbers the settings offer (48 to 256); JavaScript renders
  a whole number below \<open>10\<^sup>2\<^sup>1\<close> in a template literal as its decimal digits.
\<close>

fun numberToString :: "nat \<Rightarrow> jsstring" where
  "numberToString n =
     (if n < 10 then [0x30 + of_nat n]
      else numberToString (n div 10) @ [0x30 + of_nat (n mod 10)])"

declare numberToString.simps [simp del]

definition EMOJI_CDN_BASE :: jsstring where
  "EMOJI_CDN_BASE = js ''https://cdn.discordapp.com/emojis''"

text \<open>
  \<^verbatim>\<open>
  function buildEmojiUrl(emojiId: string, size: number): string {
      return `${EMOJI_CDN_BASE}/${emojiId}.png?size=${size}&quality=lossless`;
  }
  \<close>
\<close>

definition buildEmojiUrl :: "jsstring \<Rightarrow> nat \<Rightarrow> jsstring" where
  "buildEmojiUrl emojiId size' =
     EMOJI_CDN_BASE @ js ''/'' @ emojiId @ js ''.png?size='' @ numberToString size' @
     js ''&quality=lossless''"

section \<open>Caching one emoji\<close>

text \<open>
  The result object \<^verbatim>\<open>{ cached: boolean; path: string; }\<close>.
\<close>

record cache_result =
  cached :: bool
  path :: jsstring

text \<open>
  \<^verbatim>\<open>const fileName = `${sanitizeName(emojiName)}-${emojiId}.png`;\<close>
\<close>

definition fileName :: "jsstring \<Rightarrow> jsstring \<Rightarrow> jsstring" where
  "fileName emojiName emojiId = sanitizeName emojiName @ js ''-'' @ emojiId @ js ''.png''"

text \<open>\<^verbatim>\<open>const guildDir = join(baseDir, safeGuildName);\<close>\<close>

definition guildDirOf :: "'x env \<Rightarrow> jsstring option \<Rightarrow> jsstring \<Rightarrow> jsstring" where
  "guildDirOf e customDir guildName = join e (resolveBaseDir e customDir) (sanitizeName guildName)"

text \<open>\<^verbatim>\<open>const filePath = join(guildDir, fileName);\<close>\<close>

definition filePathOf ::
  "'x env \<Rightarrow> jsstring option \<Rightarrow> jsstring \<Rightarrow> jsstring \<Rightarrow> jsstring \<Rightarrow> jsstring" where
  "filePathOf e customDir guildName emojiName emojiId =
     join e (guildDirOf e customDir guildName) (fileName emojiName emojiId)"

text \<open>
  The body of the \<^verbatim>\<open>try\<close> block of \<^verbatim>\<open>cacheEmoji\<close>: \<open>Inl\<close> is the value thrown to the
  \<^verbatim>\<open>catch\<close>, \<open>Inr\<close> the object returned.
  \<^verbatim>\<open>
      ensureDir(guildDir);
      const url = buildEmojiUrl(emojiId, size);
      const buffer = await fetchBuffer(url);
      const { writeFileSync } = require("original-fs");
      writeFileSync(filePath, buffer);
      cachedEmojiIds.add(emojiId);
      return { cached: true, path: filePath };
  \<close>
\<close>

definition cacheEmoji_try ::
  "'x env \<Rightarrow> jsstring \<Rightarrow> jsstring \<Rightarrow> jsstring \<Rightarrow> nat \<Rightarrow> 'x world \<Rightarrow>
     (js_error + cache_result) \<times> 'x world" where
  "cacheEmoji_try e emojiId guildDir filePath size' w =
     (case ensureDir e guildDir w of
        (Inl err, w1) \<Rightarrow> (Inl err, w1)
      | (Inr _, w1) \<Rightarrow>
          (case do_fetchBuffer e (buildEmojiUrl emojiId size') w1 of
             (Inl err, w2) \<Rightarrow> (Inl err, w2)
           | (Inr buffer, w2) \<Rightarrow>
               (case do_writeFileSync e filePath buffer w2 of
                  (Inl err, w3) \<Rightarrow> (Inl err, w3)
                | (Inr _, w3) \<Rightarrow>
                    (Inr \<lparr>cached = True, path = filePath\<rparr>,
                     w3\<lparr>cachedEmojiIds := insert emojiId (cachedEmojiIds w3)\<rparr>))))"

text \<open>
  \<^verbatim>\<open>
  export async function cacheEmoji(_, emojiId, emojiName, guildName, customDir?, size = 128) {
      if (cachedEmojiIds.has(emojiId)) {
          return { cached: false, path: "" };
      }
      const baseDir = resolveBaseDir(customDir);
      const safeGuildName = sanitizeName(guildName);
      const guildDir = join(baseDir, safeGuildName);
      const fileName = `${sanitizeName(emojiName)}-${emojiId}.png`;
      const filePath = join(guildDir, fileName);
      if (existsSync(filePath)) {
          cachedEmojiIds.add(emojiId);
          return { cached: false, path: filePath };
      }
      try { ... } catch (error) {
          console.error(`[MessageEmojiCache] Failed to cache emoji ${emojiName} (${emojiId}):`, error);
          return { cached: false, path: "" };
      }
  }
  \<close>
  An absent \<^verbatim>\<open>size\<close> is \<open>None\<close> and takes the default 128 (\<open>sizeOrDefault\<close>).  The function is run to
  completion on its own: no other task runs while it awaits.
\<close>

definition sizeOrDefault :: "nat option \<Rightarrow> nat" where
  "sizeOrDefault sizeArg = (case sizeArg of None \<Rightarrow> 128 | Some n \<Rightarrow> n)"

definition cacheEmoji ::
  "'x env \<Rightarrow> jsstring \<Rightarrow> jsstring \<Rightarrow> jsstring \<Rightarrow> jsstring option \<Rightarrow> nat option \<Rightarrow>
     'x world \<Rightarrow> cache_result \<times> 'x world" where
  "cacheEmoji e emojiId emojiName guildName customDir sizeArg w =
     (if emojiId \<in> cachedEmojiIds w then (\<lparr>cached = False, path = []\<rparr>, w)
      else
        let guildDir = guildDirOf e customDir guildName;
            filePath = filePathOf e customDir guildName emojiName emojiId
        in
          (case do_existsSync e filePath w of
             (True, w1) \<Rightarrow>
               (\<lparr>cached = False, path = filePath\<rparr>,
                w1\<lparr>cachedEmojiIds := insert emojiId (cachedEmojiIds w1)\<rparr>)
           | (False, w1) \<Rightarrow>
               (case cacheEmoji_try e emojiId guildDir filePath (sizeOrDefault sizeArg) w1 of
                  (Inr result, w2) \<Rightarrow> (result, w2)
                | (Inl err, w2) \<Rightarrow>
                    (\<lparr>cached = False, path = []\<rparr>,
                     do_consoleError
                       (js ''[MessageEmojiCache] Failed to cache emoji '' @ emojiName @
                        js '' ('' @ emojiId @ js ''):'') err w2))))"

section \<open>Caching a batch\<close>

text \<open>One element of the \<^verbatim>\<open>emojis\<close> array: \<^verbatim>\<open>{ id: string; name: string; guildName: string; }\<close>.\<close>

record emoji =
  emoji_id :: jsstring
  emoji_name :: jsstring
  emoji_guildName :: jsstring

text \<open>
  \<^verbatim>\<open>
  export async function cacheEmojis(event, emojis, customDir?, size?) {
      let newlyCached = 0;
      for (const emoji of emojis) {
          const result = await cacheEmoji(event, emoji.id, emoji.name, emoji.guildName, customDir, size);
          if (result.cached) {
              newlyCached++;
          }
      }
      return newlyCached;
  }
  \<close>
  The loop carries \<^verbatim>\<open>newlyCached\<close> and the state.
\<close>

fun cacheEmojis_loop ::
  "'x env \<Rightarrow> emoji list \<Rightarrow> jsstring option \<Rightarrow> nat option \<Rightarrow> nat \<Rightarrow> 'x world \<Rightarrow> nat \<times> 'x world" where
  "cacheEmojis_loop e [] customDir sizeArg newlyCached w = (newlyCached, w)"
| "cacheEmojis_loop e (em # rest) customDir sizeArg newlyCached w =
     (case cacheEmoji e (emoji_id em) (emoji_name em) (emoji_guildName em) customDir sizeArg w of
        (result, w1) \<Rightarrow>
          cacheEmojis_loop e rest customDir sizeArg
            (if cached result then newlyCached + 1 else newlyCached) w1)"

definition cacheEmojis ::
  "'x env \<Rightarrow> emoji list \<Rightarrow> jsstring option \<Rightarrow> nat option \<Rightarrow> 'x world \<Rightarrow> nat \<times> 'x world" where
  "cacheEmojis e emojis customDir sizeArg w = cacheEmojis_loop e emojis customDir sizeArg 0 w"

section \<open>Rebuilding the set from disk\<close>

text \<open>
  \<^verbatim>\<open>file.match(/-(\d+)\.png$/)\<close> looks for the leftmost position where the pattern
  matches and gives the digits captured there.  At a hyphen, \<^verbatim>\<open>\d+\<close> takes the
  longest run of ASCII digits; giving digits back cannot help, since the next code unit
  would be a digit where a period is required.  \<^verbatim>\<open>$\<close> (no \<^verbatim>\<open>m\<close> flag) is the end
  of the input.
\<close>

definition isDigit :: "jschar \<Rightarrow> bool" where
  "isDigit c \<longleftrightarrow> 0x30 \<le> c \<and> c \<le> 0x39"

definition matchHere :: "jsstring \<Rightarrow> jsstring option" where
  "matchHere s =
     (case s of
        [] \<Rightarrow> None
      | c # r \<Rightarrow>
          if c = 0x2D \<and> takeWhile isDigit r \<noteq> [] \<and> dropWhile isDigit r = js ''.png''
          then Some (takeWhile isDigit r) else None)"

fun matchIdSuffix :: "jsstring \<Rightarrow> jsstring option" where
  "matchIdSuffix [] = None"
| "matchIdSuffix (c # r) =
     (case matchHere (c # r) of Some m1 \<Rightarrow> Some m1 | None \<Rightarrow> matchIdSuffix r)"

text \<open>
  The inner loop of \<^verbatim>\<open>initCache\<close>:
  \<^verbatim>\<open>
      for (const file of files) {
          const match = file.match(/-(\d+)\.png$/);
          if (match) {
              cachedEmojiIds.add(match[1]);
              count++;
          }
      }
  \<close>
\<close>

fun scanFiles :: "jsstring list \<Rightarrow> nat \<Rightarrow> 'x world \<Rightarrow> nat \<times> 'x world" where
  "scanFiles [] count w = (count, w)"
| "scanFiles (file # rest) count w =
     (case matchIdSuffix file of
        Some m1 \<Rightarrow>
          scanFiles rest (count + 1) (w\<lparr>cachedEmojiIds := insert m1 (cachedEmojiIds w)\<rparr>)
      | None \<Rightarrow> scanFiles rest count w)"

text \<open>
  The outer loop; a throwing \<^verbatim>\<open>readdirSync\<close> leaves the loop with the count reached.
  \<^verbatim>\<open>
      for (const guildDir of guildDirs) {
          const fullGuildDir = join(baseDir, guildDir);
          const files: string[] = readdirSync(fullGuildDir);
          ...
      }
  \<close>
\<close>

fun scanGuildDirs ::
  "'x env \<Rightarrow> jsstring \<Rightarrow> jsstring list \<Rightarrow> nat \<Rightarrow> 'x world \<Rightarrow> js_error option \<times> nat \<times> 'x world" where
  "scanGuildDirs e baseDir [] count w = (None, count, w)"
| "scanGuildDirs e baseDir (guildDir # rest) count w =
     (case do_readdirSync e (join e baseDir guildDir) w of
        (Inl err, w1) \<Rightarrow> (Some err, count, w1)
      | (Inr ents, w1) \<Rightarrow>
          (case scanFiles (map dirent_name ents) count w1 of
             (count1, w2) \<Rightarrow> scanGuildDirs e baseDir rest count1 w2))"

text \<open>
  The body of the \<^verbatim>\<open>try\<close> block of \<^verbatim>\<open>initCache\<close>, started with \<^verbatim>\<open>count = 0\<close>: the
  thrown value if any, the count reached, and the state.
  \<^verbatim>\<open>
      const guildDirs: string[] = readdirSync(baseDir, { withFileTypes: true })
          .filter((d: any) => d.isDirectory())
          .map((d: any) => d.name);
  \<close>
\<close>

definition initCache_try ::
  "'x env \<Rightarrow> jsstring \<Rightarrow> 'x world \<Rightarrow> js_error option \<times> nat \<times> 'x world" where
  "initCache_try e baseDir w =
     (case do_readdirSync e baseDir w of
        (Inl err, w1) \<Rightarrow> (Some err, 0, w1)
      | (Inr ents, w1) \<Rightarrow>
          scanGuildDirs e baseDir (map dirent_name (filter isDirectory ents)) 0 w1)"

text \<open>
  \<^verbatim>\<open>
  export async function initCache(_, customDir?) {
      const baseDir = resolveBaseDir(customDir);
      ensureDir(baseDir);
      const { readdirSync } = require("original-fs");
      let count = 0;
      try { ... } catch (error) {
          console.error("[MessageEmojiCache] Failed to init cache from disk:", error);
      }
      return count;
  }
  \<close>
  \<^verbatim>\<open>ensureDir(baseDir)\<close> stands before the \<^verbatim>\<open>try\<close>: what it throws leaves the function
  (\<open>Inl\<close>: the promise is rejected).
\<close>

definition initCache ::
  "'x env \<Rightarrow> jsstring option \<Rightarrow> 'x world \<Rightarrow> (js_error + nat) \<times> 'x world" where
  "initCache e customDir w =
     (let baseDir = resolveBaseDir e customDir in
      case ensureDir e baseDir w of
        (Inl err, w1) \<Rightarrow> (Inl err, w1)
      | (Inr _, w1) \<Rightarrow>
          (case initCache_try e baseDir w1 of
             (Some err, count, w2) \<Rightarrow>
               (Inr count,
                do_consoleError (js ''[MessageEmojiCache] Failed to init cache from disk:'') err w2)
           | (None, count, w2) \<Rightarrow> (Inr count, w2)))"

section \<open>Notions used to state the properties\<close>

text \<open>The outside world as \<open>ensureDir\<close> leaves it.\<close>

definition afterEnsureDir :: "'x env \<Rightarrow> 'x \<Rightarrow> jsstring \<Rightarrow> 'x" where
  "afterEnsureDir e x dirPath =
     (if existsSync e x dirPath then x else snd (mkdirSync e x dirPath))"

text \<open>
  The file names that the scan of \<^verbatim>\<open>initCache\<close> gets to see: the listings of the
  collection directories in order, up to the first listing that throws.
\<close>

fun listedFiles :: "'x env \<Rightarrow> 'x \<Rightarrow> jsstring \<Rightarrow> jsstring list \<Rightarrow> jsstring list" where
  "listedFiles e x baseDir [] = []"
| "listedFiles e x baseDir (guildDir # rest) =
     (case readdirSync e x (join e baseDir guildDir) of
        Inl err \<Rightarrow> []
      | Inr ents \<Rightarrow> map dirent_name ents @ listedFiles e x baseDir rest)"

text \<open>The IDs captured from those file names, one per matching file, in order.\<close>

definition scannedIds :: "'x env \<Rightarrow> 'x \<Rightarrow> jsstring \<Rightarrow> jsstring list" where
  "scannedIds e x baseDir =
     (case readdirSync e x baseDir of
        Inl err \<Rightarrow> []
      | Inr ents \<Rightarrow>
          List.map_filter matchIdSuffix
            (listedFiles e x baseDir (map dirent_name (filter isDirectory ents))))"

text \<open>
  The batch as the sequence of its single-emoji operations: the results of calling
  \<open>cacheEmoji\<close> once per element, in the order given, each call starting in the state
  the one before left.
\<close>

fun sequentialResults ::
  "'x env \<Rightarrow> emoji list \<Rightarrow> jsstring option \<Rightarrow> nat option \<Rightarrow> 'x world \<Rightarrow>
     cache_result list \<times> 'x world" where
  "sequentialResults e [] customDir sizeArg w = ([], w)"
| "sequentialResults e (em # rest) customDir sizeArg w =
     (case cacheEmoji e (emoji_id em) (emoji_name em) (emoji_guildName em) customDir sizeArg w of
        (result, w1) \<Rightarrow>
          (case sequentialResults e rest customDir sizeArg w1 of
             (results, w2) \<Rightarrow> (result # results, w2)))"

text \<open>
  The fetches and writes among the calls made, in order: \<open>Inl\<close> of the URL fetched,
  \<open>Inr\<close> of the path written.
\<close>

definition fetchesAndWrites :: "call list \<Rightarrow> (jsstring + jsstring) list" where
  "fetchesAndWrites cs =
     List.map_filter
       (\<lambda>c. case c of
              FetchBuffer url \<Rightarrow> Some (Inl url)
            | WriteFileSync p buffer \<Rightarrow> Some (Inr p)
            | _ \<Rightarrow> None) cs"

text \<open>The fetch and the write that caching one element of a batch takes.\<close>

definition fetchAndWriteOf ::
  "'x env \<Rightarrow> jsstring option \<Rightarrow> nat option \<Rightarrow> emoji \<Rightarrow> (jsstring + jsstring) list" where
  "fetchAndWriteOf e customDir sizeArg em =
     [Inl (buildEmojiUrl (emoji_id em) (sizeOrDefault sizeArg)),
      Inr (filePathOf e customDir (emoji_guildName em) (emoji_name em) (emoji_id em))]"

text \<open>
  An element is new in a state, and the outside world lets it be cached: its ID is not
  tracked, no file is at its path, and creating the collection directory (where it is
  missing), the fetch and the write succeed, each in the state of the outside world in
  which \<open>cacheEmoji\<close> calls it.
\<close>

definition newAndServed ::
  "'x env \<Rightarrow> emoji \<Rightarrow> jsstring option \<Rightarrow> nat option \<Rightarrow> 'x world \<Rightarrow> bool" where
  "newAndServed e em customDir sizeArg w \<longleftrightarrow>
     emoji_id em \<notin> cachedEmojiIds w \<and>
     \<not> existsSync e (ext w)
         (filePathOf e customDir (emoji_guildName em) (emoji_name em) (emoji_id em)) \<and>
     (existsSync e (ext w) (guildDirOf e customDir (emoji_guildName em)) \<or>
      fst (mkdirSync e (ext w) (guildDirOf e customDir (emoji_guildName em))) = Inr ()) \<and>
     (case fetchBuffer e
             (afterEnsureDir e (ext w) (guildDirOf e customDir (emoji_guildName em)))
             (buildEmojiUrl (emoji_id em) (sizeOrDefault sizeArg)) of
        (Inl err, x) \<Rightarrow> False
      | (Inr buffer, x) \<Rightarrow>
          fst (writeFileSync e x
                 (filePathOf e customDir (emoji_guildName em) (emoji_name em) (emoji_id em))
                 buffer) = Inr ())"

text \<open>
  Every element of a batch, in the state in which the batch reaches it, is either tracked
  already or new and served.
\<close>

fun trackedOrServed ::
  "'x env \<Rightarrow> emoji list \<Rightarrow> jsstring option \<Rightarrow> nat option \<Rightarrow> 'x world \<Rightarrow> bool" where
  "trackedOrServed e [] customDir sizeArg w = True"
| "trackedOrServed e (em # rest) customDir sizeArg w =
     ((emoji_id em \<in> cachedEmojiIds w \<or> newAndServed e em customDir sizeArg w) \<and>
      trackedOrServed e rest customDir sizeArg
        (snd (cacheEmoji e (emoji_id em) (emoji_name em) (emoji_guildName em)
                customDir sizeArg w)))"

section \<open>A disk in memory\<close>

text \<open>
  An environment to run the module in: a disk given by its directories and its files,
  with \<^verbatim>\<open>/\<close> as the separator, and a network given by a function from URLs to
  responses.  \<^verbatim>\<open>mkdirSync\<close> is the recursive one: it creates the missing ancestors too.
  Writing a file needs its directory.
\<close>

record disk =
  disk_dirs :: "jsstring list"
  disk_files :: "(jsstring \<times> bytes) list"

fun ancestorsOf :: "jsstring \<Rightarrow> jsstring \<Rightarrow> jsstring list" where
  "ancestorsOf acc [] = []"
| "ancestorsOf acc (c # r) =
     (if c = 0x2F \<and> acc \<noteq> [] then [acc] else []) @ ancestorsOf (acc @ [c]) r"

definition mem_existsSync :: "disk \<Rightarrow> jsstring \<Rightarrow> bool" where
  "mem_existsSync d p \<longleftrightarrow> p \<in> set (disk_dirs d) \<or> p \<in> set (map fst (disk_files d))"

definition mem_mkdirSync :: "disk \<Rightarrow> jsstring \<Rightarrow> (js_error + unit) \<times> disk" where
  "mem_mkdirSync d p =
     (Inr (), d\<lparr>disk_dirs :=
        disk_dirs d @ filter (\<lambda>q. q \<notin> set (disk_dirs d)) (ancestorsOf [] p @ [p])\<rparr>)"

definition mem_writeFileSync :: "disk \<Rightarrow> jsstring \<Rightarrow> bytes \<Rightarrow> (js_error + unit) \<times> disk" where
  "mem_writeFileSync d p buffer =
     (if ancestorsOf [] p \<noteq> [] \<and> last (ancestorsOf [] p) \<notin> set (disk_dirs d)
      then (Inl (JsError (js ''ENOENT'')), d)
      else (Inr (), d\<lparr>disk_files := filter (\<lambda>f. fst f \<noteq> p) (disk_files d) @ [(p, buffer)]\<rparr>))"

fun stripPrefix :: "jsstring \<Rightarrow> jsstring \<Rightarrow> jsstring option" where
  "stripPrefix [] q = Some q"
| "stripPrefix (c # r) [] = None"
| "stripPrefix (c # r) (d # q) = (if c = d then stripPrefix r q else None)"

definition childName :: "jsstring \<Rightarrow> jsstring \<Rightarrow> jsstring option" where
  "childName dir q =
     (case stripPrefix (dir @ js ''/'') q of
        None \<Rightarrow> None
      | Some r \<Rightarrow> if r \<noteq> [] \<and> 0x2F \<notin> set r then Some r else None)"

definition mem_readdirSync :: "disk \<Rightarrow> jsstring \<Rightarrow> js_error + dirent list" where
  "mem_readdirSync d p =
     (if p \<in> set (disk_dirs d) then
        Inr (List.map_filter (\<lambda>q. map_option (\<lambda>n. Dirent n True) (childName p q)) (disk_dirs d) @
             List.map_filter (\<lambda>f. map_option (\<lambda>n. Dirent n False) (childName p (fst f)))
               (disk_files d))
      else Inl (JsError (js ''ENOENT'')))"

definition memEnv :: "(jsstring \<Rightarrow> js_error + bytes) \<Rightarrow> disk env" where
  "memEnv net =
     \<lparr>DATA_DIR = js ''/data'', HOME = Some (js ''/home/user''),
      join = (\<lambda>a b. a @ js ''/'' @ b),
      existsSync = mem_existsSync, mkdirSync = mem_mkdirSync,
      fetchBuffer = (\<lambda>d url. (net url, d)),
      writeFileSync = mem_writeFileSync, readdirSync = mem_readdirSync\<rparr>"

text \<open>The start of the scenarios: nothing tracked, no call made yet, on the given disk.\<close>

definition freshWorld :: "disk \<Rightarrow> disk world" where
  "freshWorld d = \<lparr>ext = d, cachedEmojiIds = {}, calls = []\<rparr>"

definition emptyRoot :: disk where
  "emptyRoot = \<lparr>disk_dirs = [js ''root''], disk_files = []\<rparr>"

definition png :: bytes where
  "png = [0x89, 0x50, 0x4E, 0x47]"

definition okNet :: "jsstring \<Rightarrow> js_error + bytes" where
  "okNet url = Inr png"

definition downNet :: "jsstring \<Rightarrow> js_error + bytes" where
  "downNet url = Inl (JsError (js ''ECONNREFUSED''))"

text \<open>A disk that is full: every write throws.\<close>

definition fullDiskEnv :: "disk env" where
  "fullDiskEnv =
     (memEnv okNet)\<lparr>writeFileSync := \<lambda>d p buffer. (Inl (JsError (js ''ENOSPC'')), d)\<rparr>"

text \<open>A disk that cannot be written to: every \<^verbatim>\<open>mkdirSync\<close> throws.\<close>

definition readOnlyEnv :: "disk env" where
  "readOnlyEnv = (memEnv okNet)\<lparr>mkdirSync := \<lambda>d p. (Inl (JsError (js ''EACCES'')), d)\<rparr>"

definition noRoot :: disk where
  "noRoot = \<lparr>disk_dirs = [], disk_files = []\<rparr>"

text \<open>A disk on which the directory \<^verbatim>\<open>root/B\<close> cannot be listed.\<close>

definition unreadableEnv :: "disk env" where
  "unreadableEnv =
     (memEnv okNet)\<lparr>readdirSync := \<lambda>d p.
        if p = js ''root/B'' then Inl (JsError (js ''EACCES'')) else mem_readdirSync d p\<rparr>"

text \<open>The emoji of the end-to-end scenario, already on disk.\<close>

definition pogOnDisk :: disk where
  "pogOnDisk =
     \<lparr>disk_dirs = [js ''root'', js ''root/My Server''],
      disk_files = [(js ''root/My Server/Pog-10.png'', png)]\<rparr>"

text \<open>Two collections with three files, one of them without an ID suffix.\<close>

definition threeFiles :: disk where
  "threeFiles =
     \<lparr>disk_dirs = [js ''root'', js ''root/A'', js ''root/B''],
      disk_files = [(js ''root/A/Foo-123.png'', png), (js ''root/A/weird.png'', png),
                    (js ''root/B/bar-456.png'', png)]\<rparr>"

text \<open>The same emoji under two collections.\<close>

definition sameIdTwice :: disk where
  "sameIdTwice =
     \<lparr>disk_dirs = [js ''root'', js ''root/A'', js ''root/B''],
      disk_files = [(js ''root/A/Pog-1.png'', png), (js ''root/B/Pog-1.png'', png)]\<rparr>"

text \<open>A batch of three emojis of one collection.\<close>

definition batch :: "emoji list" where
  "batch =
     [\<lparr>emoji_id = js ''1'', emoji_name = js ''a'', emoji_guildName = js ''G''\<rparr>,
      \<lparr>emoji_id = js ''2'', emoji_name = js ''b'', emoji_guildName = js ''G''\<rparr>,
      \<lparr>emoji_id = js ''3'', emoji_name = js ''c'', emoji_guildName = js ''G''\<rparr>]"

section \<open>The name sanitizer run twice\<close>

text \<open>
  Claim C2 says that the sanitizer is idempotent: \<open>sanitizeName (sanitizeName x) = sanitizeName x\<close>
  for every \<open>x\<close>.  The code does not have the property.  The trailing periods are stripped
  before the whitespace is trimmed, so a period that only whitespace follows survives the
  first pass and goes in the second: \<^verbatim>\<open>"a. "\<close> gives \<^verbatim>\<open>"a."\<close>, and \<^verbatim>\<open>"a."\<close> gives
  \<^verbatim>\<open>"a"\<close>.  In the same way \<^verbatim>\<open>".. ."\<close> gives \<^verbatim>\<open>".."\<close>.
\<close>

theorem sanitizeName_not_idempotent:
  "sanitizeName (js ''a. '') = js ''a.'' \<and>
   sanitizeName (js ''a.'') = js ''a'' \<and>
   sanitizeName (sanitizeName (js ''a. '')) \<noteq> sanitizeName (js ''a. '') \<and>
   sanitizeName (js ''.. .'') = js ''..''"
proof -
  have first: "sanitizeName (js ''a. '') = js ''a.''"
    by (simp add: sanitizeName_def trim_def stripTrailingDots_def replaceUnsafe_def
      UNSAFE_FILENAME_CHARS_def isWhiteSpace_def js_def)
  have second: "sanitizeName (js ''a.'') = js ''a''"
    by (simp add: sanitizeName_def trim_def stripTrailingDots_def replaceUnsafe_def
      UNSAFE_FILENAME_CHARS_def isWhiteSpace_def js_def)
  have differ: "js ''a'' \<noteq> js ''a.''"
    by (simp add: js_def)
  have dots: "sanitizeName (js ''.. .'') = js ''..''"
    by (simp add: sanitizeName_def trim_def stripTrailingDots_def replaceUnsafe_def
      UNSAFE_FILENAME_CHARS_def isWhiteSpace_def js_def)
  show ?thesis
    unfolding first second using differ dots by simp
qed

section \<open>The file name gives the ID back\<close>

lemma js_hyphen: "js ''-'' = [0x2D]" by (simp add: js_def)
lemma js_png: "js ''.png'' = [0x2E, 0x70, 0x6E, 0x67]" by (simp add: js_def)

lemma not_digit_hyphen: "\<not> isDigit 0x2D" by (simp add: isDigit_def)
lemma not_digit_period: "\<not> isDigit 0x2E" by (simp add: isDigit_def)

lemma digits_then_png:
  assumes "\<forall>c\<in>set ds. isDigit c"
  shows "takeWhile isDigit (ds @ js ''.png'') = ds" and "dropWhile isDigit (ds @ js ''.png'') = js ''.png''"
  using assms by (simp_all add: takeWhile_append2 dropWhile_append2 js_png not_digit_period)

lemma matchHere_suffix:
  assumes "ds \<noteq> []" "\<forall>c\<in>set ds. isDigit c"
  shows "matchHere (0x2D # ds @ js ''.png'') = Some ds"
  using digits_then_png [of ds] assms by (simp add: matchHere_def)

lemma length_dropWhile_stop:
  "\<not> P x \<Longrightarrow> Suc (length t) \<le> length (dropWhile P (xs @ x # t))"
  by (induction xs) auto

lemma matchHere_before_hyphen:
  "matchHere (c # p @ 0x2D # ds @ js ''.png'') = None"
proof -
  have "5 \<le> length (dropWhile isDigit (p @ 0x2D # ds @ js ''.png''))"
    using length_dropWhile_stop [of isDigit "0x2D" "ds @ js ''.png''" p] not_digit_hyphen
    by (simp add: js_png)
  then have "dropWhile isDigit (p @ 0x2D # ds @ js ''.png'') \<noteq> js ''.png''"
    by (auto simp: js_png)
  then show ?thesis by (simp add: matchHere_def)
qed

lemma matchIdSuffix_append:
  assumes "ds \<noteq> []" "\<forall>c\<in>set ds. isDigit c"
  shows "matchIdSuffix (p @ 0x2D # ds @ js ''.png'') = Some ds"
proof (induction p)
  case Nil
  show ?case using matchHere_suffix [OF assms] by simp
next
  case (Cons c p)
  then show ?case by (simp add: matchHere_before_hyphen)
qed

text \<open>
  Claim C3.  For every display name and every ID that is a non-empty string of ASCII
  digits, matching the file name built by \<open>cacheEmoji\<close> against the pattern of
  \<open>initCache\<close> succeeds and captures exactly the ID.
\<close>

theorem fileName_id_roundtrip:
  assumes "emojiId \<noteq> []" and "\<forall>c\<in>set emojiId. isDigit c"
  shows "matchIdSuffix (fileName emojiName emojiId) = Some emojiId"
  using matchIdSuffix_append [OF assms, of "sanitizeName emojiName"]
  by (simp add: fileName_def js_hyphen)

text \<open>Claim C3 at the name \<^verbatim>\<open>"Pog"\<close> and the ID \<^verbatim>\<open>"10"\<close>.\<close>

theorem fileName_id_roundtrip_witness:
  "js ''10'' \<noteq> [] \<and> list_all isDigit (js ''10'') \<and>
   fileName (js ''Pog'') (js ''10'') = js ''Pog-10.png'' \<and>
   matchIdSuffix (js ''Pog-10.png'') = Some (js ''10'')"
proof -
  have h1: "js ''10'' \<noteq> []" by (simp add: js_def)
  have h2: "\<forall>c\<in>set (js ''10''). isDigit c" by (simp add: js_def isDigit_def)
  have f: "fileName (js ''Pog'') (js ''10'') = js ''Pog-10.png''"
    by (simp add: fileName_def sanitizeName_def trim_def stripTrailingDots_def replaceUnsafe_def
      UNSAFE_FILENAME_CHARS_def isWhiteSpace_def js_def)
  show ?thesis
    using h1 h2 f fileName_id_roundtrip [OF h1 h2, of "js ''Pog''"] by (simp add: list_all_iff)
qed

section \<open>The set of cached IDs under each operation\<close>

lemma tracker_do_existsSync: "cachedEmojiIds (snd (do_existsSync e p w)) = cachedEmojiIds w"
  by (simp add: do_existsSync_def)

lemma tracker_do_mkdirSync: "cachedEmojiIds (snd (do_mkdirSync e p w)) = cachedEmojiIds w"
  by (simp add: do_mkdirSync_def split: prod.splits)

lemma tracker_do_fetchBuffer: "cachedEmojiIds (snd (do_fetchBuffer e url w)) = cachedEmojiIds w"
  by (simp add: do_fetchBuffer_def split: prod.splits)

lemma tracker_do_writeFileSync: "cachedEmojiIds (snd (do_writeFileSync e p b w)) = cachedEmojiIds w"
  by (simp add: do_writeFileSync_def split: prod.splits)

lemma tracker_do_readdirSync: "cachedEmojiIds (snd (do_readdirSync e p w)) = cachedEmojiIds w"
  by (simp add: do_readdirSync_def)

lemma tracker_do_consoleError: "cachedEmojiIds (do_consoleError msg err w) = cachedEmojiIds w"
  by (simp add: do_consoleError_def)

lemmas tracker_do =
  tracker_do_existsSync tracker_do_mkdirSync tracker_do_fetchBuffer tracker_do_writeFileSync
  tracker_do_readdirSync tracker_do_consoleError

lemma tracker_ensureDir: "cachedEmojiIds (snd (ensureDir e p w)) = cachedEmojiIds w"
  by (simp add: ensureDir_def tracker_do split: prod.splits)
    (metis snd_conv tracker_do_existsSync tracker_do_mkdirSync)

lemma cacheEmoji_try_thrown:
  assumes "cacheEmoji_try e emojiId guildDir filePath n w = (Inl err, w')"
  shows "cachedEmojiIds w' = cachedEmojiIds w"
proof (cases "ensureDir e guildDir w")
  case (Pair r1 w1)
  have t1: "cachedEmojiIds w1 = cachedEmojiIds w"
    using tracker_ensureDir [of e guildDir w] Pair by simp
  show ?thesis
  proof (cases r1)
    case (Inl a)
    with assms Pair t1 show ?thesis by (simp add: cacheEmoji_try_def)
  next
    case (Inr u)
    obtain r2 w2 where f: "do_fetchBuffer e (buildEmojiUrl emojiId n) w1 = (r2, w2)"
      by (cases "do_fetchBuffer e (buildEmojiUrl emojiId n) w1")
    have t2: "cachedEmojiIds w2 = cachedEmojiIds w"
      using tracker_do_fetchBuffer [of e "buildEmojiUrl emojiId n" w1] f t1 by simp
    show ?thesis
    proof (cases r2)
      case (Inl a)
      with assms Pair Inr f t2 show ?thesis by (simp add: cacheEmoji_try_def)
    next
      case buf: (Inr buffer)
      obtain r3 w3 where wr: "do_writeFileSync e filePath buffer w2 = (r3, w3)"
        by (cases "do_writeFileSync e filePath buffer w2")
      have t3: "cachedEmojiIds w3 = cachedEmojiIds w"
        using tracker_do_writeFileSync [of e filePath buffer w2] wr t2 by simp
      show ?thesis
        using assms Pair Inr f buf wr t3 by (cases r3) (simp_all add: cacheEmoji_try_def)
    qed
  qed
qed

lemma cacheEmoji_try_returned:
  assumes "cacheEmoji_try e emojiId guildDir filePath n w = (Inr result, w')"
  shows "cachedEmojiIds w' = insert emojiId (cachedEmojiIds w) \<and> result = \<lparr>cached = True, path = filePath\<rparr>"
proof (cases "ensureDir e guildDir w")
  case (Pair r1 w1)
  have t1: "cachedEmojiIds w1 = cachedEmojiIds w"
    using tracker_ensureDir [of e guildDir w] Pair by simp
  show ?thesis
  proof (cases r1)
    case (Inl a)
    with assms Pair t1 show ?thesis by (simp add: cacheEmoji_try_def)
  next
    case (Inr u)
    obtain r2 w2 where f: "do_fetchBuffer e (buildEmojiUrl emojiId n) w1 = (r2, w2)"
      by (cases "do_fetchBuffer e (buildEmojiUrl emojiId n) w1")
    have t2: "cachedEmojiIds w2 = cachedEmojiIds w"
      using tracker_do_fetchBuffer [of e "buildEmojiUrl emojiId n" w1] f t1 by simp
    show ?thesis
    proof (cases r2)
      case (Inl a)
      with assms Pair Inr f t2 show ?thesis by (simp add: cacheEmoji_try_def)
    next
      case buf: (Inr buffer)
      obtain r3 w3 where wr: "do_writeFileSync e filePath buffer w2 = (r3, w3)"
        by (cases "do_writeFileSync e filePath buffer w2")
      have t3: "cachedEmojiIds w3 = cachedEmojiIds w"
        using tracker_do_writeFileSync [of e filePath buffer w2] wr t2 by simp
      show ?thesis
        using assms Pair Inr f buf wr t3 by (cases r3) (auto simp add: cacheEmoji_try_def)
    qed
  qed
qed

lemma cacheEmoji_tracked:
  "emojiId \<in> cachedEmojiIds w \<Longrightarrow>
   cacheEmoji e emojiId emojiName guildName customDir sizeArg w = (\<lparr>cached = False, path = []\<rparr>, w)"
  by (simp add: cacheEmoji_def)

lemma cacheEmoji_existing:
  assumes "emojiId \<notin> cachedEmojiIds w"
    and "existsSync e (ext w) (filePathOf e customDir guildName emojiName emojiId)"
  shows "cacheEmoji e emojiId emojiName guildName customDir sizeArg w =
    (\<lparr>cached = False, path = filePathOf e customDir guildName emojiName emojiId\<rparr>,
     w\<lparr>calls := calls w @ [ExistsSync (filePathOf e customDir guildName emojiName emojiId)],
       cachedEmojiIds := insert emojiId (cachedEmojiIds w)\<rparr>)"
  using assms by (simp add: cacheEmoji_def do_existsSync_def Let_def)

lemma cacheEmoji_absent:
  assumes "emojiId \<notin> cachedEmojiIds w"
    and "\<not> existsSync e (ext w) (filePathOf e customDir guildName emojiName emojiId)"
  shows "cacheEmoji e emojiId emojiName guildName customDir sizeArg w =
    (case cacheEmoji_try e emojiId (guildDirOf e customDir guildName)
            (filePathOf e customDir guildName emojiName emojiId)
            (sizeOrDefault sizeArg)
            (w\<lparr>calls := calls w @ [ExistsSync (filePathOf e customDir guildName emojiName emojiId)]\<rparr>) of
       (Inr result, w2) \<Rightarrow> (result, w2)
     | (Inl err, w2) \<Rightarrow>
         (\<lparr>cached = False, path = []\<rparr>,
          do_consoleError
            (js ''[MessageEmojiCache] Failed to cache emoji '' @ emojiName @
             js '' ('' @ emojiId @ js ''):'') err w2))"
  using assms by (simp add: cacheEmoji_def do_existsSync_def Let_def)

lemma tracker_cacheEmoji:
  "cachedEmojiIds w \<subseteq> cachedEmojiIds (snd (cacheEmoji e emojiId emojiName guildName customDir sizeArg w))"
proof (cases "emojiId \<in> cachedEmojiIds w")
  case True
  then show ?thesis by (simp add: cacheEmoji_tracked)
next
  case False
  show ?thesis
  proof (cases "existsSync e (ext w) (filePathOf e customDir guildName emojiName emojiId)")
    case True
    with False show ?thesis by (auto simp add: cacheEmoji_existing)
  next
    case ne: False
    let ?w0 = "w\<lparr>calls := calls w @ [ExistsSync (filePathOf e customDir guildName emojiName emojiId)]\<rparr>"
    obtain r w' where t: "cacheEmoji_try e emojiId (guildDirOf e customDir guildName)
            (filePathOf e customDir guildName emojiName emojiId)
            (sizeOrDefault sizeArg) ?w0 = (r, w')"
      by (cases "cacheEmoji_try e emojiId (guildDirOf e customDir guildName)
            (filePathOf e customDir guildName emojiName emojiId)
            (sizeOrDefault sizeArg) ?w0")
    show ?thesis
    proof (cases r)
      case (Inl err)
      with t have "cachedEmojiIds w' = cachedEmojiIds ?w0" by (simp add: cacheEmoji_try_thrown)
      with False ne t Inl show ?thesis by (simp add: cacheEmoji_absent tracker_do_consoleError)
    next
      case (Inr result)
      with t have "cachedEmojiIds w' = insert emojiId (cachedEmojiIds ?w0)"
        using cacheEmoji_try_returned by blast
      with False ne t Inr show ?thesis by (auto simp add: cacheEmoji_absent)
    qed
  qed
qed



section \<open>Running the scenarios\<close>

lemmas string_defs =
  sanitizeName_def trim_def stripTrailingDots_def replaceUnsafe_def
  UNSAFE_FILENAME_CHARS_def isWhiteSpace_def js_def

lemma numberToString_128: "numberToString 128 = js ''128''"
  by (simp add: numberToString.simps [of 128] numberToString.simps [of 12]
      numberToString.simps [of "Suc 0"] js_def)

lemmas run_defs =
  cacheEmoji_def cacheEmoji_try_def ensureDir_def do_existsSync_def do_mkdirSync_def
  do_fetchBuffer_def do_writeFileSync_def do_consoleError_def do_readdirSync_def
  guildDirOf_def filePathOf_def fileName_def resolveBaseDir_def sizeOrDefault_def
  buildEmojiUrl_def EMOJI_CDN_BASE_def numberToString_128 Let_def

lemmas mem_defs =
  memEnv_def mem_existsSync_def mem_mkdirSync_def mem_writeFileSync_def freshWorld_def
  emptyRoot_def okNet_def downNet_def

section \<open>One emoji\<close>

lemma cacheEmoji_try_fails:
  assumes "(\<not> existsSync e (ext w) gd \<and> isl (fst (mkdirSync e (ext w) gd))) \<or>
     isl (fst (fetchBuffer e (afterEnsureDir e (ext w) gd) (buildEmojiUrl emojiId n))) \<or>
     (\<exists>buffer. fst (fetchBuffer e (afterEnsureDir e (ext w) gd) (buildEmojiUrl emojiId n)) = Inr buffer \<and>
        isl (fst (writeFileSync e
          (snd (fetchBuffer e (afterEnsureDir e (ext w) gd) (buildEmojiUrl emojiId n))) fp buffer)))"
  shows "isl (fst (cacheEmoji_try e emojiId gd fp n w))"
  using assms
  by (auto simp: cacheEmoji_try_def ensureDir_def do_existsSync_def do_mkdirSync_def
      do_fetchBuffer_def do_writeFileSync_def isl_def afterEnsureDir_def
      split: prod.splits sum.splits if_splits)

text \<open>
  Claim C4.  For an ID that is not tracked and whose computed path does not exist: if
  directory creation raises, or the fetch raises, or the write raises (each primitive
  taken in the state in which \<open>cacheEmoji\<close> calls it), then \<open>cacheEmoji\<close> catches the
  error, returns \<^verbatim>\<open>{cached: false, path: ""}\<close>, and the set of cached IDs is unchanged.
\<close>

theorem cacheEmoji_failure_keeps_tracker:
  assumes untracked: "emojiId \<notin> cachedEmojiIds w"
    and absent: "\<not> existsSync e (ext w) (filePathOf e customDir guildName emojiName emojiId)"
    and raises:
      "(\<not> existsSync e (ext w) (guildDirOf e customDir guildName) \<and>
          isl (fst (mkdirSync e (ext w) (guildDirOf e customDir guildName)))) \<or>
       isl (fst (fetchBuffer e (afterEnsureDir e (ext w) (guildDirOf e customDir guildName))
                  (buildEmojiUrl emojiId (sizeOrDefault sizeArg)))) \<or>
       (\<exists>buffer.
          fst (fetchBuffer e (afterEnsureDir e (ext w) (guildDirOf e customDir guildName))
                 (buildEmojiUrl emojiId (sizeOrDefault sizeArg))) = Inr buffer \<and>
          isl (fst (writeFileSync e
                 (snd (fetchBuffer e (afterEnsureDir e (ext w) (guildDirOf e customDir guildName))
                         (buildEmojiUrl emojiId (sizeOrDefault sizeArg))))
                 (filePathOf e customDir guildName emojiName emojiId) buffer)))"
  shows "fst (cacheEmoji e emojiId emojiName guildName customDir sizeArg w) =
           \<lparr>cached = False, path = []\<rparr> \<and>
         cachedEmojiIds (snd (cacheEmoji e emojiId emojiName guildName customDir sizeArg w)) =
           cachedEmojiIds w"
proof -
  let ?fp = "filePathOf e customDir guildName emojiName emojiId"
  let ?w0 = "w\<lparr>calls := calls w @ [ExistsSync ?fp]\<rparr>"
  let ?t = "cacheEmoji_try e emojiId (guildDirOf e customDir guildName) ?fp
              (sizeOrDefault sizeArg) ?w0"
  have "isl (fst ?t)"
    by (rule cacheEmoji_try_fails) (use raises in simp)
  then obtain err w' where t: "?t = (Inl err, w')"
    by (cases ?t) (auto simp: isl_def)
  then have "cachedEmojiIds w' = cachedEmojiIds ?w0" by (rule cacheEmoji_try_thrown)
  with t untracked absent show ?thesis
    by (simp add: cacheEmoji_absent tracker_do_consoleError)
qed

text \<open>
  Claim C4 on a full disk: the directory is created and the fetch succeeds, the write
  throws; the call reports failure and nothing is tracked.
\<close>

theorem cacheEmoji_failure_keeps_tracker_witness:
  "fst (cacheEmoji fullDiskEnv (js ''10'') (js ''Pog'') (js ''My Server'') (Some (js ''root''))
          (Some 128) (freshWorld emptyRoot)) = \<lparr>cached = False, path = []\<rparr> \<and>
   cachedEmojiIds (snd (cacheEmoji fullDiskEnv (js ''10'') (js ''Pog'') (js ''My Server'')
          (Some (js ''root'')) (Some 128) (freshWorld emptyRoot))) = {} \<and>
   isl (fst (writeFileSync fullDiskEnv
          \<lparr>disk_dirs = [js ''root'', js ''root/My Server''], disk_files = []\<rparr>
          (js ''root/My Server/Pog-10.png'') png))"
proof -
  have untracked: "js ''10'' \<notin> cachedEmojiIds (freshWorld emptyRoot)"
    by (simp add: freshWorld_def)
  have absent: "\<not> existsSync fullDiskEnv (ext (freshWorld emptyRoot))
      (filePathOf fullDiskEnv (Some (js ''root'')) (js ''My Server'') (js ''Pog'') (js ''10''))"
    by (simp add: fullDiskEnv_def run_defs mem_defs string_defs)
  have raises: "\<exists>buffer.
      fst (fetchBuffer fullDiskEnv
            (afterEnsureDir fullDiskEnv (ext (freshWorld emptyRoot))
               (guildDirOf fullDiskEnv (Some (js ''root'')) (js ''My Server'')))
            (buildEmojiUrl (js ''10'') (sizeOrDefault (Some 128)))) = Inr buffer \<and>
      isl (fst (writeFileSync fullDiskEnv
            (snd (fetchBuffer fullDiskEnv
                    (afterEnsureDir fullDiskEnv (ext (freshWorld emptyRoot))
                       (guildDirOf fullDiskEnv (Some (js ''root'')) (js ''My Server'')))
                    (buildEmojiUrl (js ''10'') (sizeOrDefault (Some 128)))))
            (filePathOf fullDiskEnv (Some (js ''root'')) (js ''My Server'') (js ''Pog'') (js ''10''))
            buffer))"
    by (simp add: fullDiskEnv_def afterEnsureDir_def run_defs mem_defs string_defs)
  have w: "isl (fst (writeFileSync fullDiskEnv
          \<lparr>disk_dirs = [js ''root'', js ''root/My Server''], disk_files = []\<rparr>
          (js ''root/My Server/Pog-10.png'') png))"
    by (simp add: fullDiskEnv_def)
  show ?thesis
    using cacheEmoji_failure_keeps_tracker [OF untracked absent, of "Some 128"] raises w
    by (simp add: freshWorld_def)
qed

section \<open>One emoji: the file is there, the fetch fails, all goes well\<close>

text \<open>
  Claim C5.  For an ID that is not tracked but whose computed path already exists on disk,
  \<open>cacheEmoji\<close> adds the ID to the set, returns \<^verbatim>\<open>{cached: false, path: filePath}\<close> with
  the computed path, which is not empty (\<^verbatim>\<open>path.join\<close> never returns a zero-length
  string), and does no fetch and no write: the outside world is as before and the only call
  made is the \<^verbatim>\<open>existsSync\<close> of the path.
\<close>

theorem cacheEmoji_heals_existing_file:
  assumes untracked: "emojiId \<notin> cachedEmojiIds w"
    and present: "existsSync e (ext w) (filePathOf e customDir guildName emojiName emojiId)"
    and join_nonempty: "\<And>a b. join e a b \<noteq> []"
  shows "fst (cacheEmoji e emojiId emojiName guildName customDir sizeArg w) =
           \<lparr>cached = False, path = filePathOf e customDir guildName emojiName emojiId\<rparr> \<and>
         filePathOf e customDir guildName emojiName emojiId \<noteq> [] \<and>
         cachedEmojiIds (snd (cacheEmoji e emojiId emojiName guildName customDir sizeArg w)) =
           insert emojiId (cachedEmojiIds w) \<and>
         ext (snd (cacheEmoji e emojiId emojiName guildName customDir sizeArg w)) = ext w \<and>
         calls (snd (cacheEmoji e emojiId emojiName guildName customDir sizeArg w)) =
           calls w @ [ExistsSync (filePathOf e customDir guildName emojiName emojiId)]"
  using untracked present join_nonempty [of "guildDirOf e customDir guildName" "fileName emojiName emojiId"]
  by (simp add: cacheEmoji_existing) (simp add: filePathOf_def)

text \<open>
  Claim C5 on a disk that already holds \<^verbatim>\<open>root/My Server/Pog-10.png\<close>, with nothing tracked.
\<close>

theorem cacheEmoji_heals_existing_file_witness:
  "cacheEmoji (memEnv okNet) (js ''10'') (js ''Pog'') (js ''My Server'') (Some (js ''root''))
     (Some 128) (freshWorld pogOnDisk) =
   (\<lparr>cached = False, path = js ''root/My Server/Pog-10.png''\<rparr>,
    \<lparr>ext = pogOnDisk, cachedEmojiIds = {js ''10''},
     calls = [ExistsSync (js ''root/My Server/Pog-10.png'')]\<rparr>)"
proof -
  have untracked: "js ''10'' \<notin> cachedEmojiIds (freshWorld pogOnDisk)"
    by (simp add: freshWorld_def)
  have fp: "filePathOf (memEnv okNet) (Some (js ''root'')) (js ''My Server'') (js ''Pog'') (js ''10'')
      = js ''root/My Server/Pog-10.png''"
    by (simp add: run_defs mem_defs string_defs)
  have present: "existsSync (memEnv okNet) (ext (freshWorld pogOnDisk))
      (filePathOf (memEnv okNet) (Some (js ''root'')) (js ''My Server'') (js ''Pog'') (js ''10''))"
    unfolding fp by (simp add: mem_defs pogOnDisk_def)
  have join_nonempty: "\<And>a b. join (memEnv okNet) a b \<noteq> []"
    by (simp add: memEnv_def js_def)
  show ?thesis
    using cacheEmoji_heals_existing_file [OF untracked present join_nonempty, of "Some 128"]
    unfolding fp
    by (cases "cacheEmoji (memEnv okNet) (js ''10'') (js ''Pog'') (js ''My Server'')
          (Some (js ''root'')) (Some 128) (freshWorld pogOnDisk)")
       (simp add: freshWorld_def)
qed

text \<open>
  Claim C10.  For an ID that is not tracked, with no file at the computed path and no
  collection directory: when \<^verbatim>\<open>mkdirSync\<close> succeeds and the fetch then raises,
  \<open>cacheEmoji\<close> returns \<^verbatim>\<open>{cached: false, path: ""}\<close> and leaves the outside world as the
  failed fetch left it; nothing removes the directory, so it is still there.
\<close>

theorem cacheEmoji_failed_fetch_leaves_directory:
  assumes untracked: "emojiId \<notin> cachedEmojiIds w"
    and absent: "\<not> existsSync e (ext w) (filePathOf e customDir guildName emojiName emojiId)"
    and no_dir: "\<not> existsSync e (ext w) (guildDirOf e customDir guildName)"
    and mkdir_ok: "mkdirSync e (ext w) (guildDirOf e customDir guildName) = (Inr u, x1)"
    and fetch_fails: "fetchBuffer e x1 (buildEmojiUrl emojiId (sizeOrDefault sizeArg)) = (Inl err, x2)"
    and dir_there: "existsSync e x2 (guildDirOf e customDir guildName)"
  shows "fst (cacheEmoji e emojiId emojiName guildName customDir sizeArg w) =
           \<lparr>cached = False, path = []\<rparr> \<and>
         ext (snd (cacheEmoji e emojiId emojiName guildName customDir sizeArg w)) = x2 \<and>
         existsSync e (ext (snd (cacheEmoji e emojiId emojiName guildName customDir sizeArg w)))
           (guildDirOf e customDir guildName)"
  using assms
  by (simp add: cacheEmoji_absent cacheEmoji_try_def ensureDir_def do_existsSync_def
      do_mkdirSync_def do_fetchBuffer_def do_consoleError_def)

text \<open>
  Claim C10 on the disk in memory with the network down: \<^verbatim>\<open>root/My Server\<close> does not
  exist before the call and exists after it, although the call reports failure.
\<close>

theorem cacheEmoji_failed_fetch_leaves_directory_witness:
  "\<not> mem_existsSync emptyRoot (js ''root/My Server'') \<and>
   fst (cacheEmoji (memEnv downNet) (js ''10'') (js ''Pog'') (js ''My Server'') (Some (js ''root''))
          (Some 128) (freshWorld emptyRoot)) = \<lparr>cached = False, path = []\<rparr> \<and>
   mem_existsSync
     (ext (snd (cacheEmoji (memEnv downNet) (js ''10'') (js ''Pog'') (js ''My Server'')
                  (Some (js ''root'')) (Some 128) (freshWorld emptyRoot))))
     (js ''root/My Server'')"
proof -
  let ?e = "memEnv downNet"
  let ?x1 = "\<lparr>disk_dirs = [js ''root'', js ''root/My Server''], disk_files = []\<rparr>"
  have gd: "guildDirOf ?e (Some (js ''root'')) (js ''My Server'') = js ''root/My Server''"
    by (simp add: run_defs mem_defs string_defs)
  have untracked: "js ''10'' \<notin> cachedEmojiIds (freshWorld emptyRoot)"
    by (simp add: freshWorld_def)
  have absent: "\<not> existsSync ?e (ext (freshWorld emptyRoot))
      (filePathOf ?e (Some (js ''root'')) (js ''My Server'') (js ''Pog'') (js ''10''))"
    by (simp add: run_defs mem_defs string_defs)
  have no_dir: "\<not> existsSync ?e (ext (freshWorld emptyRoot)) (guildDirOf ?e (Some (js ''root'')) (js ''My Server''))"
    by (simp add: run_defs mem_defs string_defs)
  have mkdir_ok: "mkdirSync ?e (ext (freshWorld emptyRoot)) (guildDirOf ?e (Some (js ''root'')) (js ''My Server''))
      = (Inr (), ?x1)"
    by (simp add: run_defs mem_defs string_defs)
  have fetch_fails: "fetchBuffer ?e ?x1 (buildEmojiUrl (js ''10'') (sizeOrDefault (Some 128)))
      = (Inl (JsError (js ''ECONNREFUSED'')), ?x1)"
    by (simp add: mem_defs)
  have dir_there: "existsSync ?e ?x1 (guildDirOf ?e (Some (js ''root'')) (js ''My Server''))"
    by (simp add: run_defs mem_defs string_defs)
  have before: "\<not> mem_existsSync emptyRoot (js ''root/My Server'')"
    by (simp add: mem_defs js_def)
  have ex: "existsSync ?e = mem_existsSync" by (simp add: memEnv_def)
  show ?thesis
    using cacheEmoji_failed_fetch_leaves_directory
      [OF untracked absent no_dir mkdir_ok fetch_fails dir_there] before
    unfolding gd ex by blast
qed

text \<open>
  Claim C1, as amended.  From an empty set and an empty root, with a fetch that returns
  the bytes \<open>b\<close>, \<open>cacheEmoji\<close> for the ID \<^verbatim>\<open>"10"\<close>, the name \<^verbatim>\<open>"Pog"\<close>, the collection
  \<^verbatim>\<open>"My Server"\<close> and the size 128 writes \<open>b\<close> to \<^verbatim>\<open>root/My Server/Pog-10.png\<close> (the
  space is not an unsafe character and stays) and returns \<^verbatim>\<open>{cached: true, path}\<close> with
  that path; a second call with the same arguments returns \<^verbatim>\<open>{cached: false, path: ""}\<close>.
\<close>

theorem cacheEmoji_end_to_end:
  "cacheEmoji (memEnv (\<lambda>url. Inr b)) (js ''10'') (js ''Pog'') (js ''My Server'')
     (Some (js ''root'')) (Some 128) (freshWorld emptyRoot) =
   (\<lparr>cached = True, path = js ''root/My Server/Pog-10.png''\<rparr>,
    \<lparr>ext = \<lparr>disk_dirs = [js ''root'', js ''root/My Server''],
            disk_files = [(js ''root/My Server/Pog-10.png'', b)]\<rparr>,
     cachedEmojiIds = {js ''10''},
     calls = [ExistsSync (js ''root/My Server/Pog-10.png''), ExistsSync (js ''root/My Server''),
              MkdirSync (js ''root/My Server''),
              FetchBuffer (js ''https://cdn.discordapp.com/emojis/10.png?size=128&quality=lossless''),
              WriteFileSync (js ''root/My Server/Pog-10.png'') b]\<rparr>) \<and>
   fst (cacheEmoji (memEnv (\<lambda>url. Inr b)) (js ''10'') (js ''Pog'') (js ''My Server'')
          (Some (js ''root'')) (Some 128)
          (snd (cacheEmoji (memEnv (\<lambda>url. Inr b)) (js ''10'') (js ''Pog'') (js ''My Server'')
                  (Some (js ''root'')) (Some 128) (freshWorld emptyRoot)))) =
     \<lparr>cached = False, path = []\<rparr>"
proof -
  have first: "cacheEmoji (memEnv (\<lambda>url. Inr b)) (js ''10'') (js ''Pog'') (js ''My Server'')
     (Some (js ''root'')) (Some 128) (freshWorld emptyRoot) =
   (\<lparr>cached = True, path = js ''root/My Server/Pog-10.png''\<rparr>,
    \<lparr>ext = \<lparr>disk_dirs = [js ''root'', js ''root/My Server''],
            disk_files = [(js ''root/My Server/Pog-10.png'', b)]\<rparr>,
     cachedEmojiIds = {js ''10''},
     calls = [ExistsSync (js ''root/My Server/Pog-10.png''), ExistsSync (js ''root/My Server''),
              MkdirSync (js ''root/My Server''),
              FetchBuffer (js ''https://cdn.discordapp.com/emojis/10.png?size=128&quality=lossless''),
              WriteFileSync (js ''root/My Server/Pog-10.png'') b]\<rparr>)"
    by (simp add: run_defs mem_defs string_defs)
  show ?thesis
    unfolding first by (simp add: cacheEmoji_tracked)
qed

text \<open>
  Claim C1 as stated fails: the path returned is not \<^verbatim>\<open>root/My_Server/Pog-10.png\<close>.
\<close>

theorem cacheEmoji_path_keeps_space:
  "path (fst (cacheEmoji (memEnv okNet) (js ''10'') (js ''Pog'') (js ''My Server'')
                (Some (js ''root'')) (Some 128) (freshWorld emptyRoot))) \<noteq>
   js ''root/My_Server/Pog-10.png''"
  by (simp add: run_defs mem_defs string_defs)

section \<open>The scan\<close>

lemma map_filter_append: "List.map_filter f (xs @ ys) = List.map_filter f xs @ List.map_filter f ys"
  by (simp add: List.map_filter_def)

lemma scanFiles_eq:
  "scanFiles files count w =
     (count + length (List.map_filter matchIdSuffix files),
      w\<lparr>cachedEmojiIds := cachedEmojiIds w \<union> set (List.map_filter matchIdSuffix files)\<rparr>)"
proof (induction files arbitrary: count w)
  case Nil
  show ?case by (simp add: List.map_filter_simps)
next
  case (Cons f rest)
  show ?case
  proof (cases "matchIdSuffix f")
    case None
    then show ?thesis by (simp add: Cons.IH List.map_filter_simps)
  next
    case (Some m1)
    then show ?thesis by (simp add: Cons.IH List.map_filter_simps)
  qed
qed

lemma scanGuildDirs_eq:
  "scanGuildDirs e baseDir dirs count w = (r, count', w') \<Longrightarrow>
     count' = count + length (List.map_filter matchIdSuffix (listedFiles e (ext w) baseDir dirs)) \<and>
     cachedEmojiIds w' =
       cachedEmojiIds w \<union> set (List.map_filter matchIdSuffix (listedFiles e (ext w) baseDir dirs)) \<and>
     ext w' = ext w"
proof (induction dirs arbitrary: count w)
  case Nil
  then show ?case by (simp add: List.map_filter_simps)
next
  case (Cons guildDir rest)
  show ?case
  proof (cases "readdirSync e (ext w) (join e baseDir guildDir)")
    case (Inl err)
    with Cons.prems show ?thesis
      by (auto simp: do_readdirSync_def List.map_filter_simps)
  next
    case (Inr ents)
    let ?w1 = "w\<lparr>calls := calls w @ [ReaddirSync (join e baseDir guildDir)]\<rparr>"
    let ?ids = "List.map_filter matchIdSuffix (map dirent_name ents)"
    let ?w2 = "?w1\<lparr>cachedEmojiIds := cachedEmojiIds ?w1 \<union> set ?ids\<rparr>"
    from Cons.prems Inr
    have "scanGuildDirs e baseDir rest (count + length ?ids) ?w2 = (r, count', w')"
      by (simp add: do_readdirSync_def scanFiles_eq)
    from Cons.IH [OF this] Inr show ?thesis
      by (auto simp: map_filter_append)
  qed
qed

lemma initCache_try_eq:
  assumes "initCache_try e baseDir w = (r, count', w')"
  shows "count' = length (scannedIds e (ext w) baseDir) \<and>
     cachedEmojiIds w' = cachedEmojiIds w \<union> set (scannedIds e (ext w) baseDir) \<and>
     ext w' = ext w"
proof (cases "readdirSync e (ext w) baseDir")
  case (Inl err)
  with assms show ?thesis
    by (auto simp: initCache_try_def do_readdirSync_def scannedIds_def)
next
  case (Inr ents)
  let ?w1 = "w\<lparr>calls := calls w @ [ReaddirSync baseDir]\<rparr>"
  from assms Inr
  have "scanGuildDirs e baseDir (map dirent_name (filter isDirectory ents)) 0 ?w1 = (r, count', w')"
    by (simp add: initCache_try_def do_readdirSync_def)
  from scanGuildDirs_eq [OF this] Inr show ?thesis
    by (simp add: scannedIds_def)
qed

lemma ensureDir_ext: "ext (snd (ensureDir e p w)) = afterEnsureDir e (ext w) p"
  by (simp add: ensureDir_def do_existsSync_def do_mkdirSync_def afterEnsureDir_def
      split: prod.splits)

lemma ensureDir_ok:
  "existsSync e (ext w) p \<or> fst (mkdirSync e (ext w) p) = Inr () \<Longrightarrow>
   fst (ensureDir e p w) = Inr ()"
  by (auto simp: ensureDir_def do_existsSync_def do_mkdirSync_def split: prod.splits)

lemma initCache_eq:
  assumes "existsSync e (ext w) (resolveBaseDir e customDir) \<or>
           fst (mkdirSync e (ext w) (resolveBaseDir e customDir)) = Inr ()"
  shows "fst (initCache e customDir w) =
           Inr (length (scannedIds e (afterEnsureDir e (ext w) (resolveBaseDir e customDir))
                  (resolveBaseDir e customDir))) \<and>
         cachedEmojiIds (snd (initCache e customDir w)) =
           cachedEmojiIds w \<union>
           set (scannedIds e (afterEnsureDir e (ext w) (resolveBaseDir e customDir))
                  (resolveBaseDir e customDir))"
proof -
  let ?b = "resolveBaseDir e customDir"
  obtain w1 where e1: "ensureDir e ?b w = (Inr (), w1)"
    using ensureDir_ok [OF assms] by (cases "ensureDir e ?b w") auto
  have x1: "ext w1 = afterEnsureDir e (ext w) ?b"
    using ensureDir_ext [of e ?b w] e1 by simp
  have t1: "cachedEmojiIds w1 = cachedEmojiIds w"
    using tracker_ensureDir [of e ?b w] e1 by simp
  obtain r n w2 where t: "initCache_try e ?b w1 = (r, n, w2)"
    by (cases "initCache_try e ?b w1") auto
  from initCache_try_eq [OF t] x1 t1
  have n: "n = length (scannedIds e (afterEnsureDir e (ext w) ?b) ?b)"
    and c: "cachedEmojiIds w2 = cachedEmojiIds w \<union> set (scannedIds e (afterEnsureDir e (ext w) ?b) ?b)"
    by simp_all
  show ?thesis
    using e1 t n c by (cases r) (simp_all add: initCache_def Let_def tracker_do_consoleError)
qed

lemma tracker_initCache: "cachedEmojiIds w \<subseteq> cachedEmojiIds (snd (initCache e customDir w))"
proof -
  let ?b = "resolveBaseDir e customDir"
  obtain r1 w1 where e1: "ensureDir e ?b w = (r1, w1)"
    by (cases "ensureDir e ?b w") auto
  have t1: "cachedEmojiIds w1 = cachedEmojiIds w"
    using tracker_ensureDir [of e ?b w] e1 by simp
  obtain r n w2 where t: "initCache_try e ?b w1 = (r, n, w2)"
    by (cases "initCache_try e ?b w1") auto
  from initCache_try_eq [OF t] t1 have c: "cachedEmojiIds w \<subseteq> cachedEmojiIds w2" by auto
  show ?thesis
    using e1 t t1 c
    by (cases r1; cases r) (simp_all add: initCache_def Let_def tracker_do_consoleError)
qed

section \<open>The batch\<close>

lemma cacheEmojis_loop_eq:
  "cacheEmojis_loop e emojis customDir sizeArg n w =
     (n + length (filter cached (fst (sequentialResults e emojis customDir sizeArg w))),
      snd (sequentialResults e emojis customDir sizeArg w))"
proof (induction emojis arbitrary: n w)
  case Nil
  show ?case by simp
next
  case (Cons em rest)
  show ?case by (simp add: Cons.IH split: prod.splits)
qed

lemma length_sequentialResults:
  "length (fst (sequentialResults e emojis customDir sizeArg w)) = length emojis"
proof (induction emojis arbitrary: w)
  case Nil
  show ?case by simp
next
  case (Cons em rest)
  obtain result w1 where c: "cacheEmoji e (emoji_id em) (emoji_name em) (emoji_guildName em)
      customDir sizeArg w = (result, w1)"
    by (cases "cacheEmoji e (emoji_id em) (emoji_name em) (emoji_guildName em) customDir sizeArg w")
  obtain results w2 where s: "sequentialResults e rest customDir sizeArg w1 = (results, w2)"
    by (cases "sequentialResults e rest customDir sizeArg w1")
  from Cons.IH [of w1] s have "length results = length rest" by simp
  with c s show ?case by simp
qed

lemma tracker_cacheEmojis_loop:
  "cachedEmojiIds w \<subseteq> cachedEmojiIds (snd (cacheEmojis_loop e emojis customDir sizeArg n w))"
proof (induction emojis arbitrary: n w)
  case Nil
  show ?case by simp
next
  case (Cons em rest)
  obtain result w1 where c: "cacheEmoji e (emoji_id em) (emoji_name em) (emoji_guildName em)
      customDir sizeArg w = (result, w1)"
    by (cases "cacheEmoji e (emoji_id em) (emoji_name em) (emoji_guildName em) customDir sizeArg w")
  have "cachedEmojiIds w \<subseteq> cachedEmojiIds w1"
    using tracker_cacheEmoji [of w e "emoji_id em" "emoji_name em" "emoji_guildName em" customDir sizeArg] c
    by simp
  also have "\<dots> \<subseteq> cachedEmojiIds (snd (cacheEmojis_loop e rest customDir sizeArg
      (if cached result then n + 1 else n) w1))"
    by (rule Cons.IH)
  finally show ?case using c by simp
qed

text \<open>
  Claim C9.  The set of cached IDs only grows: whatever the environment does and whatever
  the state before, every ID in the set before \<open>cacheEmoji\<close>, \<open>cacheEmojis\<close> or
  \<open>initCache\<close> is still in the set after it.
\<close>

theorem cachedEmojiIds_only_grows:
  "cachedEmojiIds w \<subseteq>
     cachedEmojiIds (snd (cacheEmoji e emojiId emojiName guildName customDir sizeArg w)) \<and>
   cachedEmojiIds w \<subseteq> cachedEmojiIds (snd (cacheEmojis e emojis customDir sizeArg w)) \<and>
   cachedEmojiIds w \<subseteq> cachedEmojiIds (snd (initCache e customDir w))"
  by (simp add: tracker_cacheEmoji tracker_initCache cacheEmojis_def tracker_cacheEmojis_loop)

section \<open>The scan as a whole\<close>

lemmas scan_defs =
  initCache_def initCache_try_def scanGuildDirs.simps scanFiles.simps matchIdSuffix.simps
  matchHere_def isDigit_def mem_readdirSync_def childName_def stripPrefix.simps
  List.map_filter_simps threeFiles_def sameIdTwice_def noRoot_def png_def

text \<open>
  Claim C6, as amended.  Whenever ensuring the root directory succeeds (it exists, or
  \<^verbatim>\<open>mkdirSync\<close> returns), \<open>initCache\<close> returns a count and never a failure, whatever the
  directory listings do: the count is the one the \<^verbatim>\<open>try\<close> block had reached, thrown or
  not, which is the number of matching files listed before the first listing that throws.
\<close>

theorem initCache_catches_listing_failures:
  assumes "existsSync e (ext w) (resolveBaseDir e customDir) \<or>
           fst (mkdirSync e (ext w) (resolveBaseDir e customDir)) = Inr ()"
  shows "fst (initCache e customDir w) =
           Inr (fst (snd (initCache_try e (resolveBaseDir e customDir)
                            (snd (ensureDir e (resolveBaseDir e customDir) w))))) \<and>
         fst (snd (initCache_try e (resolveBaseDir e customDir)
                     (snd (ensureDir e (resolveBaseDir e customDir) w)))) =
           length (scannedIds e (afterEnsureDir e (ext w) (resolveBaseDir e customDir))
                     (resolveBaseDir e customDir))"
proof -
  let ?b = "resolveBaseDir e customDir"
  obtain w1 where e1: "ensureDir e ?b w = (Inr (), w1)"
    using ensureDir_ok [OF assms] by (cases "ensureDir e ?b w") auto
  have x1: "ext w1 = afterEnsureDir e (ext w) ?b"
    using ensureDir_ext [of e ?b w] e1 by simp
  obtain r n w2 where t: "initCache_try e ?b w1 = (r, n, w2)"
    by (cases "initCache_try e ?b w1") auto
  from initCache_try_eq [OF t] x1
  have n: "n = length (scannedIds e (afterEnsureDir e (ext w) ?b) ?b)" by simp
  show ?thesis
    using e1 t n by (cases r) (simp_all add: initCache_def Let_def)
qed

text \<open>
  Claim C6 where \<^verbatim>\<open>root/B\<close> cannot be listed: the scan has counted \<^verbatim>\<open>Foo-123.png\<close> of
  \<^verbatim>\<open>root/A\<close> and returns 1.
\<close>

theorem initCache_catches_listing_failures_witness:
  "isl (readdirSync unreadableEnv threeFiles (js ''root/B'')) \<and>
   fst (initCache unreadableEnv (Some (js ''root'')) (freshWorld threeFiles)) = Inr 1"
proof -
  have b: "resolveBaseDir unreadableEnv (Some (js ''root'')) = js ''root''"
    by (simp add: unreadableEnv_def run_defs mem_defs string_defs)
  have ok: "existsSync unreadableEnv (ext (freshWorld threeFiles))
              (resolveBaseDir unreadableEnv (Some (js ''root''))) \<or>
            fst (mkdirSync unreadableEnv (ext (freshWorld threeFiles))
              (resolveBaseDir unreadableEnv (Some (js ''root'')))) = Inr ()"
    unfolding b by (simp add: unreadableEnv_def mem_defs threeFiles_def js_def)
  have n: "fst (snd (initCache_try unreadableEnv (js ''root'')
                   (snd (ensureDir unreadableEnv (js ''root'') (freshWorld threeFiles))))) = 1"
    by (simp add: unreadableEnv_def scan_defs run_defs mem_defs js_def)
  have l: "isl (readdirSync unreadableEnv threeFiles (js ''root/B''))"
    by (simp add: unreadableEnv_def)
  show ?thesis
    using initCache_catches_listing_failures [OF ok] l unfolding b n by simp
qed

text \<open>
  Claim C6 as stated fails: \<^verbatim>\<open>ensureDir(baseDir)\<close> stands before the \<^verbatim>\<open>try\<close>, so when the
  root is missing and \<^verbatim>\<open>mkdirSync\<close> throws, \<open>initCache\<close> fails with that error instead of
  returning a count.
\<close>

theorem initCache_rejects_when_mkdir_throws:
  "fst (initCache readOnlyEnv (Some (js ''root'')) (freshWorld noRoot)) =
     Inl (JsError (js ''EACCES''))"
  by (simp add: readOnlyEnv_def scan_defs run_defs mem_defs string_defs)

text \<open>
  Claim C7, as amended.  Whenever ensuring the root directory succeeds, the count returned
  by \<open>initCache\<close> is the number of scanned file names that match the pattern, one per file;
  the set afterwards is the set before plus the IDs of those files, so the number of IDs
  newly added is at most the count.
\<close>

theorem initCache_counts_matching_files:
  assumes "existsSync e (ext w) (resolveBaseDir e customDir) \<or>
           fst (mkdirSync e (ext w) (resolveBaseDir e customDir)) = Inr ()"
  shows "fst (initCache e customDir w) =
           Inr (length (scannedIds e (afterEnsureDir e (ext w) (resolveBaseDir e customDir))
                  (resolveBaseDir e customDir))) \<and>
         cachedEmojiIds (snd (initCache e customDir w)) =
           cachedEmojiIds w \<union>
           set (scannedIds e (afterEnsureDir e (ext w) (resolveBaseDir e customDir))
                  (resolveBaseDir e customDir)) \<and>
         card (cachedEmojiIds (snd (initCache e customDir w)) - cachedEmojiIds w) \<le>
           length (scannedIds e (afterEnsureDir e (ext w) (resolveBaseDir e customDir))
                  (resolveBaseDir e customDir))"
proof -
  let ?ids = "scannedIds e (afterEnsureDir e (ext w) (resolveBaseDir e customDir))
                (resolveBaseDir e customDir)"
  note eq = initCache_eq [OF assms]
  have "cachedEmojiIds (snd (initCache e customDir w)) - cachedEmojiIds w \<subseteq> set ?ids"
    using eq by auto
  then have "card (cachedEmojiIds (snd (initCache e customDir w)) - cachedEmojiIds w) \<le> card (set ?ids)"
    by (rule card_mono [OF finite_set])
  also have "\<dots> \<le> length ?ids" by (rule card_length)
  finally show ?thesis using eq by simp
qed

text \<open>
  Claim C7 on two collections holding \<^verbatim>\<open>Foo-123.png\<close>, \<^verbatim>\<open>weird.png\<close> and
  \<^verbatim>\<open>bar-456.png\<close>: the count is 2 and the set is \<^verbatim>\<open>{123, 456}\<close>.
\<close>

theorem initCache_counts_matching_files_witness:
  "scannedIds (memEnv okNet) threeFiles (js ''root'') = [js ''123'', js ''456''] \<and>
   fst (initCache (memEnv okNet) (Some (js ''root'')) (freshWorld threeFiles)) = Inr 2 \<and>
   cachedEmojiIds (snd (initCache (memEnv okNet) (Some (js ''root'')) (freshWorld threeFiles))) =
     {js ''123'', js ''456''}"
proof -
  let ?e = "memEnv okNet"
  have b: "resolveBaseDir ?e (Some (js ''root'')) = js ''root''"
    by (simp add: run_defs mem_defs string_defs)
  have ok: "existsSync ?e (ext (freshWorld threeFiles)) (resolveBaseDir ?e (Some (js ''root''))) \<or>
            fst (mkdirSync ?e (ext (freshWorld threeFiles)) (resolveBaseDir ?e (Some (js ''root'')))) = Inr ()"
    unfolding b by (simp add: mem_defs threeFiles_def js_def)
  have x: "afterEnsureDir ?e (ext (freshWorld threeFiles)) (js ''root'') = threeFiles"
    by (simp add: afterEnsureDir_def mem_defs threeFiles_def js_def)
  have ids: "scannedIds ?e threeFiles (js ''root'') = [js ''123'', js ''456'']"
    by (simp add: scannedIds_def scan_defs mem_defs js_def)
  show ?thesis
    using initCache_counts_matching_files [OF ok] unfolding b x ids
    by (simp add: freshWorld_def)
qed

text \<open>
  Claim C7 as stated fails: with \<^verbatim>\<open>Pog-1.png\<close> under two collections the count is 2, and
  one ID is added.
\<close>

theorem initCache_counts_same_id_twice:
  "fst (initCache (memEnv okNet) (Some (js ''root'')) (freshWorld sameIdTwice)) = Inr 2 \<and>
   card (cachedEmojiIds (snd (initCache (memEnv okNet) (Some (js ''root'')) (freshWorld sameIdTwice)))
         - cachedEmojiIds (freshWorld sameIdTwice)) = 1"
proof -
  have "initCache (memEnv okNet) (Some (js ''root'')) (freshWorld sameIdTwice) =
    (Inr 2, \<lparr>ext = sameIdTwice, cachedEmojiIds = {js ''1''},
       calls = [ExistsSync (js ''root''), ReaddirSync (js ''root''), ReaddirSync (js ''root/A''),
                ReaddirSync (js ''root/B'')]\<rparr>)"
    by (simp add: scan_defs run_defs mem_defs string_defs)
  then show ?thesis by (simp add: freshWorld_def)
qed

section \<open>The batch with new and tracked elements\<close>

lemma fetchesAndWrites_append:
  "fetchesAndWrites (cs @ ds) = fetchesAndWrites cs @ fetchesAndWrites ds"
  by (simp add: fetchesAndWrites_def map_filter_append)

lemma fetchesAndWrites_simps:
  "fetchesAndWrites [] = []"
  "fetchesAndWrites (ExistsSync p # cs) = fetchesAndWrites cs"
  "fetchesAndWrites (MkdirSync p # cs) = fetchesAndWrites cs"
  "fetchesAndWrites (FetchBuffer url # cs) = Inl url # fetchesAndWrites cs"
  "fetchesAndWrites (WriteFileSync p buffer # cs) = Inr p # fetchesAndWrites cs"
  "fetchesAndWrites (ReaddirSync p # cs) = fetchesAndWrites cs"
  "fetchesAndWrites (ConsoleError msg err # cs) = fetchesAndWrites cs"
  by (simp_all add: fetchesAndWrites_def List.map_filter_simps)

lemma cacheEmoji_served:
  assumes "newAndServed e em customDir sizeArg w"
  shows "cached (fst (cacheEmoji e (emoji_id em) (emoji_name em) (emoji_guildName em)
                        customDir sizeArg w)) \<and>
         cachedEmojiIds (snd (cacheEmoji e (emoji_id em) (emoji_name em) (emoji_guildName em)
                        customDir sizeArg w)) = insert (emoji_id em) (cachedEmojiIds w) \<and>
         fetchesAndWrites (calls (snd (cacheEmoji e (emoji_id em) (emoji_name em)
                        (emoji_guildName em) customDir sizeArg w))) =
           fetchesAndWrites (calls w) @ fetchAndWriteOf e customDir sizeArg em"
  using assms
  by (auto simp: newAndServed_def cacheEmoji_absent cacheEmoji_try_def ensureDir_def
      do_existsSync_def do_mkdirSync_def do_fetchBuffer_def do_writeFileSync_def
      afterEnsureDir_def fetchAndWriteOf_def fetchesAndWrites_append fetchesAndWrites_simps
      split: prod.splits sum.splits if_splits)

lemma cacheEmojis_loop_served:
  assumes "distinct (map emoji_id emojis)"
    and "trackedOrServed e emojis customDir sizeArg w"
  shows "fst (cacheEmojis_loop e emojis customDir sizeArg n w) =
           n + length (filter (\<lambda>em. emoji_id em \<notin> cachedEmojiIds w) emojis) \<and>
         fetchesAndWrites (calls (snd (cacheEmojis_loop e emojis customDir sizeArg n w))) =
           fetchesAndWrites (calls w) @
           concat (map (fetchAndWriteOf e customDir sizeArg)
                     (filter (\<lambda>em. emoji_id em \<notin> cachedEmojiIds w) emojis))"
  using assms
proof (induction emojis arbitrary: n w)
  case Nil
  show ?case by simp
next
  case (Cons em rest)
  let ?c = "cacheEmoji e (emoji_id em) (emoji_name em) (emoji_guildName em) customDir sizeArg w"
  have d: "distinct (map emoji_id rest)" and fresh: "emoji_id em \<notin> emoji_id ` set rest"
    using Cons.prems(1) by simp_all
  have rest_ok: "trackedOrServed e rest customDir sizeArg (snd ?c)"
    using Cons.prems(2) by simp
  show ?case
  proof (cases "emoji_id em \<in> cachedEmojiIds w")
    case True
    then have c: "?c = (\<lparr>cached = False, path = []\<rparr>, w)" by (rule cacheEmoji_tracked)
    from Cons.IH [OF d, of w n] rest_ok c True show ?thesis by simp
  next
    case False
    with Cons.prems(2) have served: "newAndServed e em customDir sizeArg w" by simp
    note s = cacheEmoji_served [OF served]
    have same: "filter (\<lambda>em'. emoji_id em' \<notin> cachedEmojiIds (snd ?c)) rest =
                filter (\<lambda>em'. emoji_id em' \<notin> cachedEmojiIds w) rest"
    proof (rule filter_cong [OF refl])
      fix x assume "x \<in> set rest"
      with fresh have "emoji_id x \<noteq> emoji_id em" by (metis imageI)
      with s show "(emoji_id x \<notin> cachedEmojiIds (snd ?c)) = (emoji_id x \<notin> cachedEmojiIds w)"
        by simp
    qed
    obtain result w1 where c: "?c = (result, w1)" by (cases ?c)
    from Cons.IH [OF d, of w1 "n + 1"] rest_ok c s same False show ?thesis by simp
  qed
qed

lemma two_of_three:
  assumes "length xs = 3" and "length (filter P xs) = 1"
  shows "length (filter (\<lambda>x. \<not> P x) xs) = 2"
  using sum_length_filter_compl [of P xs] assms by simp


text \<open>
  Claim C8.  For every environment, batch and state, \<open>cacheEmojis\<close> is the sequence of the
  single-emoji operations, one per element and in the order given, each starting in the
  state left by the one before, and it returns the number of results with \<^verbatim>\<open>cached\<close> true.
  When the IDs of the batch are distinct and every element is either tracked or new and
  served (not tracked, no file at its path, and the directory creation, the fetch and the
  write succeeding), the number returned is the number of elements that were not tracked,
  and the fetches and writes made are exactly one fetch and one write for each of these
  elements, in the order of the batch.  In particular, for every such batch of three with
  one ID tracked and two new, it returns 2 and the fetches and writes are those of the two
  new elements, in their order.
\<close>

theorem cacheEmojis_sequential:
  "cacheEmojis e emojis customDir sizeArg w =
     (length (filter cached (fst (sequentialResults e emojis customDir sizeArg w))),
      snd (sequentialResults e emojis customDir sizeArg w)) \<and>
   length (fst (sequentialResults e emojis customDir sizeArg w)) = length emojis \<and>
   (distinct (map emoji_id emojis) \<and> trackedOrServed e emojis customDir sizeArg w \<longrightarrow>
      fst (cacheEmojis e emojis customDir sizeArg w) =
        length (filter (\<lambda>em. emoji_id em \<notin> cachedEmojiIds w) emojis) \<and>
      fetchesAndWrites (calls (snd (cacheEmojis e emojis customDir sizeArg w))) =
        fetchesAndWrites (calls w) @
        concat (map (fetchAndWriteOf e customDir sizeArg)
                  (filter (\<lambda>em. emoji_id em \<notin> cachedEmojiIds w) emojis)) \<and>
      (length emojis = 3 \<and>
       length (filter (\<lambda>em. emoji_id em \<in> cachedEmojiIds w) emojis) = 1 \<longrightarrow>
         fst (cacheEmojis e emojis customDir sizeArg w) = 2 \<and>
         length (filter (\<lambda>em. emoji_id em \<notin> cachedEmojiIds w) emojis) = 2))"
proof -
  have seq: "cacheEmojis e emojis customDir sizeArg w =
     (length (filter cached (fst (sequentialResults e emojis customDir sizeArg w))),
      snd (sequentialResults e emojis customDir sizeArg w))"
    by (simp add: cacheEmojis_def cacheEmojis_loop_eq)
  have len: "length (fst (sequentialResults e emojis customDir sizeArg w)) = length emojis"
    by (rule length_sequentialResults)
  have served: "fst (cacheEmojis e emojis customDir sizeArg w) =
        length (filter (\<lambda>em. emoji_id em \<notin> cachedEmojiIds w) emojis) \<and>
      fetchesAndWrites (calls (snd (cacheEmojis e emojis customDir sizeArg w))) =
        fetchesAndWrites (calls w) @
        concat (map (fetchAndWriteOf e customDir sizeArg)
                  (filter (\<lambda>em. emoji_id em \<notin> cachedEmojiIds w) emojis))"
    if "distinct (map emoji_id emojis)" "trackedOrServed e emojis customDir sizeArg w"
    using cacheEmojis_loop_served [OF that, of 0] by (simp add: cacheEmojis_def)
  have two: "length (filter (\<lambda>em. emoji_id em \<notin> cachedEmojiIds w) emojis) = 2"
    if "length emojis = 3" "length (filter (\<lambda>em. emoji_id em \<in> cachedEmojiIds w) emojis) = 1"
    using two_of_three [OF that] by simp
  show ?thesis
    using seq len served two by simp
qed

lemmas batch_defs = batch_def newAndServed_def afterEnsureDir_def fetchAndWriteOf_def

text \<open>
  Claim C8 on the batch \<^verbatim>\<open>"1"\<close>, \<^verbatim>\<open>"2"\<close>, \<^verbatim>\<open>"3"\<close> with \<^verbatim>\<open>"2"\<close> tracked, an empty root
  and a network that answers: 2 is returned, after the fetch and write of \<^verbatim>\<open>"1"\<close> and then
  those of \<^verbatim>\<open>"3"\<close>.
\<close>

theorem cacheEmojis_sequential_witness:
  "fst (cacheEmojis (memEnv okNet) batch (Some (js ''root'')) (Some 128)
          ((freshWorld emptyRoot)\<lparr>cachedEmojiIds := {js ''2''}\<rparr>)) = 2 \<and>
   fetchesAndWrites
     (calls (snd (cacheEmojis (memEnv okNet) batch (Some (js ''root'')) (Some 128)
                    ((freshWorld emptyRoot)\<lparr>cachedEmojiIds := {js ''2''}\<rparr>)))) =
     [Inl (js ''https://cdn.discordapp.com/emojis/1.png?size=128&quality=lossless''),
      Inr (js ''root/G/a-1.png''),
      Inl (js ''https://cdn.discordapp.com/emojis/3.png?size=128&quality=lossless''),
      Inr (js ''root/G/c-3.png'')]"
proof -
  let ?e = "memEnv okNet"
  let ?w = "(freshWorld emptyRoot)\<lparr>cachedEmojiIds := {js ''2''}\<rparr>"
  have d: "distinct (map emoji_id batch)"
    by (simp add: batch_def js_def)
  have ok: "trackedOrServed ?e batch (Some (js ''root'')) (Some 128) ?w"
    by (simp add: batch_defs run_defs mem_defs string_defs)
  have three: "length batch = 3"
    by (simp add: batch_def)
  have one: "length (filter (\<lambda>em. emoji_id em \<in> cachedEmojiIds ?w) batch) = 1"
    by (simp add: batch_def freshWorld_def js_def)
  have expected: "fetchesAndWrites (calls ?w) @
      concat (map (fetchAndWriteOf ?e (Some (js ''root'')) (Some 128))
                (filter (\<lambda>em. emoji_id em \<notin> cachedEmojiIds ?w) batch)) =
     [Inl (js ''https://cdn.discordapp.com/emojis/1.png?size=128&quality=lossless''),
      Inr (js ''root/G/a-1.png''),
      Inl (js ''https://cdn.discordapp.com/emojis/3.png?size=128&quality=lossless''),
      Inr (js ''root/G/c-3.png'')]"
    by (simp add: batch_defs fetchesAndWrites_simps run_defs mem_defs string_defs)
  note general = cacheEmojis_sequential [of ?e batch "Some (js ''root'')" "Some 128" ?w]
  from general d ok three one
  have two: "fst (cacheEmojis ?e batch (Some (js ''root'')) (Some 128) ?w) = 2"
    by blast
  from general d ok
  have "fetchesAndWrites (calls (snd (cacheEmojis ?e batch (Some (js ''root'')) (Some 128) ?w))) =
      fetchesAndWrites (calls ?w) @
      concat (map (fetchAndWriteOf ?e (Some (js ''root'')) (Some 128))
                (filter (\<lambda>em. emoji_id em \<notin> cachedEmojiIds ?w) batch))"
    by blast
  then have trace: "fetchesAndWrites
      (calls (snd (cacheEmojis ?e batch (Some (js ''root'')) (Some 128) ?w))) =
     [Inl (js ''https://cdn.discordapp.com/emojis/1.png?size=128&quality=lossless''),
      Inr (js ''root/G/a-1.png''),
      Inl (js ''https://cdn.discordapp.com/emojis/3.png?size=128&quality=lossless''),
      Inr (js ''root/G/c-3.png'')]"
    by (simp only: expected)
  show ?thesis using two trace by blast
qed

end
